theory Spec2Isabelle
  imports Complex_Main "HOL-Library.Sublist"
begin

section \<open>Errors and results\<close>

text \<open>
  The Python exceptions the modelled code can raise. The source defines no exception
  class of its own; these are the built-in ones its statements raise.
\<close>

datatype error =
    OverflowError
  | ValueError
  | JSONDecodeError
  | AttributeError
  | IndexError
  | FileNotFoundError
  | OSError
  | TypeError

section \<open>Strings and paths\<close>

text \<open>
  \<open>str.replace(old, new)\<close> for a non-empty \<open>old\<close>: scanning from the left, every
  non-overlapping occurrence of \<open>old\<close> is replaced. The counter is the number of
  characters of a matched occurrence still to be skipped.
\<close>

fun replace_from :: "string \<Rightarrow> string \<Rightarrow> nat \<Rightarrow> string \<Rightarrow> string" where
  "replace_from old new k [] = []"
| "replace_from old new k (c # cs) =
     (if 0 < k then replace_from old new (k - 1) cs
      else if prefix old (c # cs) then new @ replace_from old new (length old - 1) cs
      else c # replace_from old new 0 cs)"

definition str_replace :: "string \<Rightarrow> string \<Rightarrow> string \<Rightarrow> string" where
  "str_replace s old new = replace_from old new 0 s"

definition endswith :: "string \<Rightarrow> string \<Rightarrow> bool" where
  "endswith s suf = suffix suf s"

definition startswith :: "string \<Rightarrow> string \<Rightarrow> bool" where
  "startswith s pre = prefix pre s"

text \<open>\<open>sep.join(xs)\<close>.\<close>

fun str_join :: "string \<Rightarrow> string list \<Rightarrow> string" where
  "str_join sep [] = []"
| "str_join sep [x] = x"
| "str_join sep (x # y # ys) = x @ sep @ str_join sep (y # ys)"

text \<open>\<open>os.path.join\<close> (POSIX): an absolute component discards what came before.\<close>

definition join2 :: "string \<Rightarrow> string \<Rightarrow> string" where
  "join2 path b =
     (if startswith b ''/'' then b
      else if path = [] \<or> endswith path ''/'' then path @ b
      else path @ ''/'' @ b)"

definition os_path_join :: "string \<Rightarrow> string list \<Rightarrow> string" where
  "os_path_join a p = foldl join2 a p"

text \<open>
  \<open>os.path.split\<close> (POSIX): the tail is what follows the last slash; the head is what
  precedes it, with trailing slashes stripped unless it consists of slashes only.
\<close>

definition split_tail :: "string \<Rightarrow> string" where
  "split_tail p = rev (takeWhile (\<lambda>c. c \<noteq> CHR ''/'') (rev p))"

definition split_head :: "string \<Rightarrow> string" where
  "split_head p =
     (let head = rev (dropWhile (\<lambda>c. c \<noteq> CHR ''/'') (rev p))
      in if head \<noteq> [] \<and> \<not> list_all (\<lambda>c. c = CHR ''/'') head
         then rev (dropWhile (\<lambda>c. c = CHR ''/'') (rev head))
         else head)"

definition os_path_dirname :: "string \<Rightarrow> string" where
  "os_path_dirname p = split_head p"

section \<open>The file system\<close>

text \<open>
  Values stored in a MATLAB file: \<open>np.array([2])\<close> is \<open>Array1 [2]\<close>,
  \<open>np.array([[2]], dtype='uint8')\<close> is \<open>Array2 [[2]]\<close>; any other stored value is
  kept as it is and never inspected by the code.
\<close>

datatype matValue = Array1 "int list" | Array2 "int list list" | Raw string

datatype fileContent =
    Text string
  | MatHDF5 "(string \<times> matValue) list"
  | MatV5 "(string \<times> matValue) list"
  | Binary

text \<open>
  The part of the operating system the code talks to: regular files with their contents,
  directories, the working directory, the answers of \<open>glob.glob\<close> (a pattern's matches in
  the order the system lists them), and the shell commands run through
  \<open>subprocess.call\<close>, in order.
\<close>

record filesystem =
  files :: "string \<rightharpoonup> fileContent"
  dirs :: "string list"
  cwd :: string
  globbed :: "string \<Rightarrow> string list"
  commands :: "string list"

definition os_path_isdir :: "filesystem \<Rightarrow> string \<Rightarrow> bool" where
  "os_path_isdir fs p = (p \<in> set (dirs fs))"

definition os_path_isfile :: "filesystem \<Rightarrow> string \<Rightarrow> bool" where
  "os_path_isfile fs p = (files fs p \<noteq> None)"

section \<open>Subject layout: \<open>LeadFileManager\<close>\<close>

record LeadFileManager =
  subjectPath :: string
  subjectID :: string
  useBIDS :: bool

definition LeadFileManager_init :: "filesystem \<Rightarrow> string \<Rightarrow> LeadFileManager" where
  "LeadFileManager_init fs sp =
     \<lparr> subjectPath = sp,
       subjectID = split_tail sp,
       useBIDS = os_path_isdir fs (os_path_join sp [''preprocessing'']) \<rparr>"

datatype layoutKind = Legacy | BIDS

definition layout_kind :: "LeadFileManager \<Rightarrow> layoutKind" where
  "layout_kind m = (if useBIDS m then BIDS else Legacy)"

definition getNormalizationPath :: "LeadFileManager \<Rightarrow> string" where
  "getNormalizationPath m = os_path_join (subjectPath m) [''normalization'']"

definition getNormalizationMethod :: "LeadFileManager \<Rightarrow> string" where
  "getNormalizationMethod m =
     (if useBIDS m
      then os_path_join (getNormalizationPath m)
             [''log'', subjectID m @ ''_desc-normmethod.json'']
      else os_path_join (subjectPath m) [''ea_coreg_approved.mat''])"

text \<open>
  The legacy branch of \<open>getCoregImages\<close> calls \<open>glob.glon\<close>, a name the \<open>glob\<close> module
  does not have: evaluating it raises \<open>AttributeError\<close>.
\<close>

definition getCoregImages :: "filesystem \<Rightarrow> LeadFileManager \<Rightarrow> string \<Rightarrow> error + string list" where
  "getCoregImages fs m modality =
     (if useBIDS m
      then Inr (globbed fs (os_path_join (subjectPath m)
                  [''coregistration'', ''anat'',
                   subjectID m @ ''*ses-preop_'' @ modality @ ''.nii'']))
      else Inl AttributeError)"

definition getNormalizedImages :: "filesystem \<Rightarrow> LeadFileManager \<Rightarrow> string list" where
  "getNormalizedImages fs m =
     (if useBIDS m
      then globbed fs (os_path_join (subjectPath m)
             [''normalization'', ''anat'', subjectID m @ ''*ses-preop*.nii''])
      else globbed fs (os_path_join (subjectPath m) [''glanat*.nii'']))"

definition getANTSForwardWarp :: "LeadFileManager \<Rightarrow> string" where
  "getANTSForwardWarp m =
     (if useBIDS m
      then os_path_join (getNormalizationPath m)
             [''transformations'',
              subjectID m @ ''_from-anchorNative_to-MNI152NLin2009bAsym_desc-ants.nii.gz'']
      else os_path_join (subjectPath m) [''glanatComposite.nii.gz''])"

definition getANTSInverseWarp :: "LeadFileManager \<Rightarrow> string" where
  "getANTSInverseWarp m =
     (if useBIDS m
      then os_path_join (getNormalizationPath m)
             [''transformations'',
              subjectID m @ ''_from-MNI152NLin2009bAsym_to-anchorNative_desc-ants.nii.gz'']
      else os_path_join (subjectPath m) [''glanatInverseComposite.nii.gz''])"

definition getWarpDrivePath :: "LeadFileManager \<Rightarrow> string" where
  "getWarpDrivePath m = os_path_join (subjectPath m) [''warpdrive'']"

section \<open>Approval metadata\<close>

datatype json =
    JObject "(string \<times> json) list"
  | JArray "json list"
  | JString string
  | JInt int
  | JReal real
  | JBool bool
  | JNull

text \<open>
  A Python dictionary with string keys, in insertion order: assigning to a key that is
  present replaces its value in place, assigning to a new key appends it.
\<close>

fun dict_set :: "string \<Rightarrow> 'v \<Rightarrow> (string \<times> 'v) list \<Rightarrow> (string \<times> 'v) list" where
  "dict_set k v [] = [(k, v)]"
| "dict_set k v (p # ps) = (if fst p = k then (k, v) # ps else p # dict_set k v ps)"

text \<open>
  The text of a file as a text stream sees it. \<open>open(path, 'a+')\<close> creates a missing
  file (its directory must exist) and, for reading as for writing, starts at the end of
  the file.
\<close>

definition file_text :: "filesystem \<Rightarrow> string \<Rightarrow> string" where
  "file_text fs path = (case files fs path of Some (Text t) \<Rightarrow> t | _ \<Rightarrow> [])"

text \<open>
  \<open>json.load(f)\<close> is \<open>json.loads(f.read())\<close>. The decoder proper is the parameter
  \<open>loads\<close> (\<open>None\<close> when it raises); whatever the decoder, a document with no
  characters has no value to decode and raises \<open>JSONDecodeError\<close>.
\<close>

definition json_loads :: "(string \<Rightarrow> json option) \<Rightarrow> string \<Rightarrow> json option" where
  "json_loads loads doc = (if doc = [] then None else loads doc)"

text \<open>
  \<open>saveApprovedDataJSON\<close>. The stream is opened in mode \<open>a+\<close>, so the position is the
  length of the text when \<open>json.load\<close> reads; in append mode every write goes to the end
  of the file whatever \<open>seek\<close> set, and \<open>truncate\<close> cuts at the position after the
  write. The encoder \<open>json.dump\<close> is the parameter \<open>dumps\<close>.
\<close>

definition saveApprovedDataJSON ::
    "(string \<Rightarrow> json option) \<Rightarrow> (json \<Rightarrow> string) \<Rightarrow> string \<Rightarrow> filesystem
      \<Rightarrow> (error + unit) \<times> filesystem" where
  "saveApprovedDataJSON loads dumps normalizationMethodFile fs =
     (if \<not> os_path_isfile fs normalizationMethodFile
         \<and> \<not> os_path_isdir fs (os_path_dirname normalizationMethodFile)
      then (Inl FileNotFoundError, fs)
      else
        (let fs1 = (if os_path_isfile fs normalizationMethodFile then fs
                    else fs\<lparr> files := (files fs)(normalizationMethodFile \<mapsto> Text []) \<rparr>);
             text = file_text fs1 normalizationMethodFile;
             pos = length text
         in (case json_loads loads (drop pos text) of
               None \<Rightarrow> (Inl JSONDecodeError, fs1)
             | Some (JObject normalizationMethod) \<Rightarrow>
                 (Inr (),
                  fs1\<lparr> files := (files fs1)(normalizationMethodFile \<mapsto>
                         Text (text @ dumps (JObject
                                 (dict_set ''approval'' (JInt 1) normalizationMethod)))) \<rparr>)
             | Some _ \<Rightarrow> (Inl TypeError, fs1))))"

text \<open>
  Writing a dictionary with \<open>hdf5storage.write(data, '.', filename)\<close>: into a new file,
  or into an existing HDF5 file, where each key of the dictionary is set and the other
  keys stay. A relative file name is resolved against the working directory.
\<close>

definition hdf5storage_write ::
    "(string \<times> matValue) list \<Rightarrow> string \<Rightarrow> filesystem \<Rightarrow> (error + unit) \<times> filesystem" where
  "hdf5storage_write matfiledata filename fs =
     (let path = os_path_join (cwd fs) [filename] in
      (case files fs path of
         None \<Rightarrow> (Inr (), fs\<lparr> files := (files fs)(path \<mapsto> MatHDF5 matfiledata) \<rparr>)
       | Some (MatHDF5 present) \<Rightarrow>
           (Inr (), fs\<lparr> files := (files fs)(path \<mapsto>
                      MatHDF5 (foldl (\<lambda>d (k, v). dict_set k v d) present matfiledata)) \<rparr>)
       | Some _ \<Rightarrow> (Inl OSError, fs)))"

text \<open>
  \<open>saveApprovedDataLegacy\<close>. An HDF5 file is read with \<open>h5py\<close>; on any other file
  \<open>h5py\<close> raises and \<open>scipy.io.loadmat\<close> is tried, which reads a version 5 file and
  raises on anything else. The keys \<open>loadmat\<close> adds (\<open>__header__\<close>, \<open>__version__\<close>,
  \<open>__globals__\<close>) are dropped again by \<open>savemat\<close>, so a version 5 file is modelled by
  its variables. The packages \<open>h5py\<close> and \<open>hdf5storage\<close> are taken to be importable.
\<close>

definition saveApprovedDataLegacy :: "string \<Rightarrow> filesystem \<Rightarrow> (error + unit) \<times> filesystem" where
  "saveApprovedDataLegacy normalizationMethodFile fs =
     (let save = (\<lambda>matfiledata.
            if \<not> os_path_isdir fs (os_path_dirname normalizationMethodFile)
            then (Inl FileNotFoundError, fs)
            else
              (let currentDir = cwd fs;
                   fs1 = fs\<lparr> cwd := os_path_dirname normalizationMethodFile \<rparr>
               in (case hdf5storage_write matfiledata ''ea_coreg_approved.mat'' fs1 of
                     (Inl e, fs2) \<Rightarrow> (Inl e, fs2)
                   | (Inr u, fs2) \<Rightarrow> (Inr (), fs2\<lparr> cwd := currentDir \<rparr>))))
      in (case files fs normalizationMethodFile of
            None \<Rightarrow> save [(''glanat'', Array1 [2])]
          | Some (MatHDF5 f) \<Rightarrow>
              save (dict_set ''glanat'' (Array1 [2])
                      (filter (\<lambda>(k, keyValue). k \<noteq> ''glanat'') f))
          | Some (MatV5 f) \<Rightarrow>
              (Inr (),
               fs\<lparr> files := (files fs)(normalizationMethodFile \<mapsto>
                      MatV5 (dict_set ''glanat'' (Array2 [[2]])
                               (filter (\<lambda>(k, keyValue). k \<noteq> ''glanat'') f))) \<rparr>)
          | Some _ \<Rightarrow> (Inl ValueError, fs)))"

definition saveApprovedData ::
    "(string \<Rightarrow> json option) \<Rightarrow> (json \<Rightarrow> string) \<Rightarrow> string \<Rightarrow> filesystem
      \<Rightarrow> (error + unit) \<times> filesystem" where
  "saveApprovedData loads dumps sp fs =
     (let normalizationMethodFile = getNormalizationMethod (LeadFileManager_init fs sp)
      in if endswith normalizationMethodFile ''json''
         then saveApprovedDataJSON loads dumps normalizationMethodFile fs
         else saveApprovedDataLegacy normalizationMethodFile fs)"

section \<open>Legacy transform migration\<close>

text \<open>
  One round of the loop of \<open>updateTranform\<close>, for a transform and its reference image.
  The external tool is recorded by its command line; its exit code is not looked at by
  the code, and what it writes is outside the model. \<open>os.remove\<close> raises when the file
  is not there.
\<close>

definition updateOne ::
    "string \<Rightarrow> string \<Rightarrow> string \<Rightarrow> string \<Rightarrow> filesystem \<Rightarrow> (error + unit) \<times> filesystem" where
  "updateOne directory antsApplyTransformsPath transform reference fs =
     (let transformFullPath = os_path_join directory [transform @ ''.h5''] in
      if os_path_isfile fs transformFullPath
      then
        (let h5transform = str_replace transform ''.nii.gz'' ''.h5'';
             command = antsApplyTransformsPath @ '' -r '' @ reference @ '' -t '' @ h5transform
                         @ '' -o ['' @ transform @ '',1] -v 1'';
             fs1 = fs\<lparr> commands := commands fs @ [command] \<rparr>
         in if os_path_isfile fs1 h5transform
            then (Inr (), fs1\<lparr> files := (files fs1)(h5transform := None) \<rparr>)
            else (Inl FileNotFoundError, fs1))
      else (Inr (), fs))"

fun updateLoop ::
    "string \<Rightarrow> string \<Rightarrow> (string \<times> string) list \<Rightarrow> filesystem
      \<Rightarrow> (error + unit) \<times> filesystem" where
  "updateLoop directory tool [] fs = (Inr (), fs)"
| "updateLoop directory tool ((transform, reference) # rest) fs =
     (case updateOne directory tool transform reference fs of
        (Inl e, fs1) \<Rightarrow> (Inl e, fs1)
      | (Inr u, fs1) \<Rightarrow> updateLoop directory tool rest fs1)"

text \<open>
  \<open>updateTranform\<close>. The two reference images are the first matches of the normalized
  and of the coregistered images; indexing an empty list of matches raises
  \<open>IndexError\<close>.
\<close>

definition updateTranform :: "string \<Rightarrow> string \<Rightarrow> filesystem \<Rightarrow> (error + bool) \<times> filesystem" where
  "updateTranform directory antsApplyTransformsPath fs =
     (let bidsSubject = LeadFileManager_init fs directory;
          transforms = [getANTSForwardWarp bidsSubject, getANTSInverseWarp bidsSubject]
      in (case getNormalizedImages fs bidsSubject of
            [] \<Rightarrow> (Inl IndexError, fs)
          | normalized # ns \<Rightarrow>
              (case getCoregImages fs bidsSubject ''*'' of
                 Inl e \<Rightarrow> (Inl e, fs)
               | Inr [] \<Rightarrow> (Inl IndexError, fs)
               | Inr (coreg # cs) \<Rightarrow>
                   (case updateLoop directory antsApplyTransformsPath
                           (zip transforms [normalized, coreg]) fs of
                      (Inl e, fs1) \<Rightarrow> (Inl e, fs1)
                    | (Inr u, fs1) \<Rightarrow> (Inr True, fs1)))))"

text \<open>
  \<open>loadSubjectTransform\<close>, up to the path it hands to \<open>slicer.util.loadTransform\<close>.
\<close>

definition loadSubjectTransform ::
    "string \<Rightarrow> string \<Rightarrow> filesystem \<Rightarrow> (error + string) \<times> filesystem" where
  "loadSubjectTransform sp antsApplyTransformsPath fs =
     (let transformPath = getANTSForwardWarp (LeadFileManager_init fs sp) in
      if os_path_isfile fs (str_replace transformPath ''.nii.gz'' ''.h5'')
      then (case updateTranform sp antsApplyTransformsPath fs of
              (Inl e, fs1) \<Rightarrow> (Inl e, fs1)
            | (Inr b, fs1) \<Rightarrow> (Inr transformPath, fs1))
      else (Inr transformPath, fs))"

section \<open>Parameter node\<close>

text \<open>
  The parameter node maps parameter names to strings; \<open>GetParameter\<close> of a name that
  was never set is the empty string.
\<close>

type_synonym parameterNode = "string \<Rightarrow> string"

definition GetParameter :: "parameterNode \<Rightarrow> string \<Rightarrow> string" where
  "GetParameter n k = n k"

definition SetParameter :: "parameterNode \<Rightarrow> string \<Rightarrow> string \<Rightarrow> parameterNode" where
  "SetParameter n k v = n(k := v)"

text \<open>One statement of \<open>setDefaultParameters\<close>: \<open>if not GetParameter(k): SetParameter(k, v)\<close>.\<close>

definition setIfEmpty :: "string \<Rightarrow> string \<Rightarrow> parameterNode \<Rightarrow> parameterNode" where
  "setIfEmpty k v n = (if GetParameter n k = [] then SetParameter n k v else n)"

definition setDefaultParameters :: "parameterNode \<Rightarrow> parameterNode" where
  "setDefaultParameters n =
     setIfEmpty ''Running'' ''false''
       (setIfEmpty ''DrawMode'' ''To Nearest Model''
         (setIfEmpty ''Stiffness'' ''0.1''
           (setIfEmpty ''RBFRadius'' ''30''
             (setIfEmpty ''Spacing'' ''2.0''
               (setIfEmpty ''Radius'' ''15.0'' n)))))"

definition defaultedParameters :: "string list" where
  "defaultedParameters =
     [''Radius'', ''Spacing'', ''RBFRadius'', ''Stiffness'', ''DrawMode'', ''Running'']"

section \<open>Grid geometry\<close>

type_synonym 'a vec3 = "'a \<times> 'a \<times> 'a"

record grid =
  gridSize :: "int vec3"
  gridOrigin :: "real vec3"
  gridSpacing :: "real vec3"

text \<open>
  The values of a numpy \<open>float64\<close>: a finite one is the real number it denotes, and
  the three special values are kept, since overflow and division by zero produce them
  and \<open>int()\<close> raises on them. The sign of a zero is not kept: it decides nothing but
  the sign of an infinity, and \<open>int()\<close> raises the same error on both infinities. The
  reference spacing and the override are finite floats.
\<close>

datatype npfloat = Fin real | PosInf | NegInf | NaN

text \<open>
  The exponent of the binade of a positive real: for \<open>x \<ge> 1\<close> the number of halvings
  that bring it below 2 (at most 1024, the overflow threshold), for \<open>x < 1\<close> minus the
  number of doublings that bring it to 1 or above (at most 1022, the exponent of the
  subnormal numbers).
\<close>

fun ilog2_up :: "nat \<Rightarrow> real \<Rightarrow> int" where
  "ilog2_up 0 x = 0"
| "ilog2_up (Suc k) x = (if x < 2 then 0 else 1 + ilog2_up k (x / 2))"

fun ilog2_down :: "nat \<Rightarrow> real \<Rightarrow> int" where
  "ilog2_down 0 x = 0"
| "ilog2_down (Suc k) x = (if 1 \<le> x then 0 else ilog2_down k (2 * x) - 1)"

definition binade :: "real \<Rightarrow> int" where
  "binade x = (if 1 \<le> x then ilog2_up 1024 x else ilog2_down 1022 x)"

text \<open>Rounding to the nearest integer, a tie going to the even one.\<close>

definition round_half_even :: "real \<Rightarrow> int" where
  "round_half_even r =
     (let f = \<lfloor>r\<rfloor>; d = r - of_int f
      in if d < 1 / 2 then f
         else if 1 / 2 < d then f + 1
         else if even f then f else f + 1)"

text \<open>
  The result of a \<open>float64\<close> operation whose exact value is \<open>x\<close> (IEEE 754 binary64,
  round to nearest, ties to even): \<open>x\<close> is rounded to a multiple of the spacing of its
  binade, which is 2 to the exponent minus 52, and a result of magnitude \<open>2 ^ 1024\<close> or
  more is an infinity.
\<close>

definition float64 :: "real \<Rightarrow> npfloat" where
  "float64 x =
     (if x = 0 then Fin 0
      else
        (let q = 2 powi (binade \<bar>x\<bar> - 52);
             y = of_int (round_half_even (\<bar>x\<bar> / q)) * q
         in if 2 ^ 1024 \<le> y then (if 0 < x then PosInf else NegInf)
            else Fin (if 0 < x then y else - y)))"

text \<open>
  Division of two finite floats, as \<open>np.array(spacing) / np.array(userSpacing)\<close> does
  it element by element: numpy warns and gives an infinity or a NaN where the divisor is
  zero.
\<close>

definition np_divide :: "real \<Rightarrow> real \<Rightarrow> npfloat" where
  "np_divide a b =
     (if b \<noteq> 0 then float64 (a / b)
      else if 0 < a then PosInf
      else if a < 0 then NegInf
      else NaN)"

fun float_multiply :: "npfloat \<Rightarrow> npfloat \<Rightarrow> npfloat" where
  "float_multiply NaN y = NaN"
| "float_multiply x NaN = NaN"
| "float_multiply (Fin a) (Fin b) = float64 (a * b)"
| "float_multiply (Fin a) PosInf = (if 0 < a then PosInf else if a < 0 then NegInf else NaN)"
| "float_multiply (Fin a) NegInf = (if 0 < a then NegInf else if a < 0 then PosInf else NaN)"
| "float_multiply PosInf (Fin b) = (if 0 < b then PosInf else if b < 0 then NegInf else NaN)"
| "float_multiply NegInf (Fin b) = (if 0 < b then NegInf else if b < 0 then PosInf else NaN)"
| "float_multiply PosInf PosInf = PosInf"
| "float_multiply PosInf NegInf = NegInf"
| "float_multiply NegInf PosInf = NegInf"
| "float_multiply NegInf NegInf = PosInf"

text \<open>
  \<open>np.array(size) * x\<close> for one element: the integer size is converted to \<open>float64\<close>
  and multiplied.
\<close>

definition np_multiply :: "int \<Rightarrow> npfloat \<Rightarrow> npfloat" where
  "np_multiply n x = float_multiply (float64 (of_int n)) x"

text \<open>One element of \<open>np.array(size) * (np.array(spacing) / np.array(userSpacing))\<close>.\<close>

definition axisProduct :: "int \<Rightarrow> real \<Rightarrow> real \<Rightarrow> npfloat" where
  "axisProduct n s u = np_multiply n (np_divide s u)"

definition isFinite :: "npfloat \<Rightarrow> bool" where
  "isFinite x = (case x of Fin r \<Rightarrow> True | PosInf \<Rightarrow> False | NegInf \<Rightarrow> False | NaN \<Rightarrow> False)"

text \<open>\<open>int(x)\<close> truncates toward zero and raises on an infinity or a NaN.\<close>

fun py_int :: "npfloat \<Rightarrow> error + int" where
  "py_int (Fin r) = Inr (if 0 \<le> r then \<lfloor>r\<rfloor> else \<lceil>r\<rceil>)"
| "py_int PosInf = Inl OverflowError"
| "py_int NegInf = Inl OverflowError"
| "py_int NaN = Inl ValueError"

text \<open>
  The grid computation at the head of \<open>onCalculateButton\<close>: from the grid definition of
  the input node and the parsed \<open>Spacing\<close> parameter \<open>u\<close>,
  \<open>size = np.array(size) * (np.array(spacing) / np.array([u] * 3))\<close>, then
  \<open>[int(s) for s in size]\<close>, the origin, and \<open>[u] * 3\<close> go to the auxiliary volume.
  The list comprehension converts the axes in order and stops at the first that raises.
\<close>

definition resolveGrid :: "grid \<Rightarrow> real \<Rightarrow> error + grid" where
  "resolveGrid g u =
     (case gridSize g of (n1, n2, n3) \<Rightarrow>
     (case gridSpacing g of (s1, s2, s3) \<Rightarrow>
     (case py_int (axisProduct n1 s1 u) of
        Inl e \<Rightarrow> Inl e
      | Inr k1 \<Rightarrow>
     (case py_int (axisProduct n2 s2 u) of
        Inl e \<Rightarrow> Inl e
      | Inr k2 \<Rightarrow>
     (case py_int (axisProduct n3 s3 u) of
        Inl e \<Rightarrow> Inl e
      | Inr k3 \<Rightarrow>
          Inr \<lparr> gridSize = (k1, k2, k3), gridOrigin = gridOrigin g,
                gridSpacing = (u, u, u) \<rparr>)))))"

text \<open>Truncation toward zero of a real, as \<open>int()\<close> does on a finite float.\<close>

definition trunc :: "real \<Rightarrow> int" where
  "trunc r = (if 0 \<le> r then \<lfloor>r\<rfloor> else \<lceil>r\<rceil>)"

text \<open>
  An axis on which no float operation can overflow: the size converts to \<open>float64\<close>
  exactly, and the quotient and the product stay far below the largest float.
\<close>

definition axisInRange :: "int \<Rightarrow> real \<Rightarrow> real \<Rightarrow> bool" where
  "axisInRange n s u =
     (\<bar>n\<bar> < 2 ^ 53 \<and> \<bar>s / u\<bar> \<le> 2 ^ 1022 \<and> \<bar>of_int n * s / u\<bar> \<le> 2 ^ 1022)"

section \<open>The scene and the correction cycle\<close>

type_synonym nodeID = nat

record controlPoint =
  position :: "real vec3"
  selected :: bool
  description :: string

record gridTransform =
  transformGrid :: grid
  displacement :: "int vec3 \<Rightarrow> real vec3"

record cliParameters =
  referenceVolume :: nodeID
  fixedFiducials :: nodeID
  movingFiducials :: nodeID
  outputDisplacementField :: nodeID
  RBFRadius :: string
  stiffness :: real

text \<open>
  The state the correction cycle reads and writes: the nodes of the scene, the control
  points of the fiducial nodes, the geometry of volume and grid-transform nodes, the
  four node references of the parameter node, the transform the input node observes,
  the parameters, the solver invocations made so far, the observer registered on the
  solver's node (with the output node, the preview nodes and the auxiliary volume it
  captured), the nodes scheduled for removal, and the recovery snapshots written.
\<close>

record scene =
  sceneNodes :: "nodeID list"
  nextID :: nodeID
  controlPoints :: "nodeID \<Rightarrow> controlPoint list"
  gridDefinition :: "nodeID \<Rightarrow> grid"
  volumes :: "nodeID \<rightharpoonup> grid"
  gridTransforms :: "nodeID \<rightharpoonup> gridTransform"
  InputNode :: nodeID
  SourceFiducial :: nodeID
  TargetFiducial :: nodeID
  OutputGridTransform :: nodeID
  observedTransform :: "nodeID \<rightharpoonup> nodeID"
  parameters :: parameterNode
  cliRuns :: "cliParameters list"
  statusObserver :: "(nodeID \<times> nodeID \<times> nodeID list \<times> nodeID) option"
  scheduledRemovals :: "nodeID list"
  savedScenes :: "string list"

definition AddNewNode :: "scene \<Rightarrow> nodeID \<times> scene" where
  "AddNewNode s = (nextID s, s\<lparr> sceneNodes := sceneNodes s @ [nextID s], nextID := Suc (nextID s) \<rparr>)"

definition RemoveNode :: "nodeID \<Rightarrow> scene \<Rightarrow> scene" where
  "RemoveNode n s = s\<lparr> sceneNodes := removeAll n (sceneNodes s) \<rparr>"

definition SetAndObserveTransformNodeID :: "nodeID \<Rightarrow> nodeID option \<Rightarrow> scene \<Rightarrow> scene" where
  "SetAndObserveTransformNodeID n t s = s\<lparr> observedTransform := (observedTransform s)(n := t) \<rparr>"

definition GetNumberOfControlPoints :: "scene \<Rightarrow> nodeID \<Rightarrow> nat" where
  "GetNumberOfControlPoints s n = length (controlPoints s n)"

text \<open>
  Modelled from the spec: \<open>GridNodeHelper.emptyVolume\<close> is not among the sources. It is
  taken to add to the scene a volume node with the given size, origin and spacing (the
  auxiliary reference volume) and to return it.
\<close>

definition emptyVolume :: "grid \<Rightarrow> scene \<Rightarrow> nodeID \<times> scene" where
  "emptyVolume g s =
     (case AddNewNode s of (n, s') \<Rightarrow> (n, s'\<lparr> volumes := (volumes s')(n \<mapsto> g) \<rparr>))"

text \<open>
  Modelled from the spec: \<open>GridNodeHelper.emptyGridTransform\<close> is not among the sources.
  Following the spec's words (an identity deformation field over the given grid, zero
  displacement everywhere), it sets the transform of the output node to a grid transform
  of the given size, origin and spacing whose displacement is zero at every voxel.
\<close>

definition emptyGridTransform :: "grid \<Rightarrow> nodeID \<Rightarrow> scene \<Rightarrow> scene" where
  "emptyGridTransform g out s =
     s\<lparr> gridTransforms := (gridTransforms s)
          (out \<mapsto> \<lparr> transformGrid = g, displacement = (\<lambda>v. (0, 0, 0)) \<rparr>) \<rparr>"

text \<open>
  \<open>slicer.cli.run(..., wait_for_completion=False)\<close>: a node for the invocation is added
  to the scene, the solver is started with the parameters, and the node is returned at
  once.
\<close>

definition slicer_cli_run :: "cliParameters \<Rightarrow> scene \<Rightarrow> nodeID \<times> scene" where
  "slicer_cli_run ps s =
     (case AddNewNode s of (n, s') \<Rightarrow> (n, s'\<lparr> cliRuns := cliRuns s' @ [ps] \<rparr>))"

definition computeWarp ::
    "nodeID \<Rightarrow> nodeID \<Rightarrow> nodeID \<Rightarrow> nodeID \<Rightarrow> string \<Rightarrow> real \<Rightarrow> scene \<Rightarrow> nodeID \<times> scene" where
  "computeWarp refVol out src tgt radius stiff s =
     slicer_cli_run
       \<lparr> referenceVolume = refVol, fixedFiducials = tgt, movingFiducials = src,
         outputDisplacementField = out, RBFRadius = radius, stiffness = stiff \<rparr> s"

text \<open>
  \<open>WarpDriveLogic.run\<close>: the solver when the source fiducial has control points,
  otherwise the empty grid transform over the reference volume's geometry and no node.
  A reference volume that is not a volume of the scene has no image data to read.
\<close>

definition run ::
    "nodeID \<Rightarrow> nodeID \<Rightarrow> nodeID \<Rightarrow> nodeID \<Rightarrow> string \<Rightarrow> real \<Rightarrow> scene
      \<Rightarrow> error + (nodeID option \<times> scene)" where
  "run refVol out src tgt radius stiff s =
     (if GetNumberOfControlPoints s src \<noteq> 0
      then (case computeWarp refVol out src tgt radius stiff s of
              (cliNode, s') \<Rightarrow> Inr (Some cliNode, s'))
      else (case volumes s refVol of
              None \<Rightarrow> Inl AttributeError
            | Some g \<Rightarrow> Inr (None, emptyGridTransform g out s)))"

text \<open>
  \<open>previewWarp\<close> adds two nodes to the scene, the display fiducial first and the
  thin-plate-spline transform node second, and returns them as (transform, fiducial).
  The spline itself is not modelled.
\<close>

definition previewWarp :: "nodeID \<Rightarrow> nodeID \<Rightarrow> scene \<Rightarrow> nodeID list \<times> scene" where
  "previewWarp src tgt s =
     (case AddNewNode s of (sourceDisplayFiducial, s1) \<Rightarrow>
      case AddNewNode s1 of (transformNode, s2) \<Rightarrow>
      ([transformNode, sourceDisplayFiducial], s2))"

text \<open>
  \<open>onStatusModifiedEvent\<close>. The caller is the solver's node with its status string, or
  \<open>None\<close> when the handler is called directly. For a solver node whose status is not
  \<open>Completed\<close> the handler returns at once.
\<close>

definition onStatusModifiedEvent ::
    "(nodeID \<times> string) option \<Rightarrow> nodeID \<Rightarrow> nodeID list \<Rightarrow> nodeID \<Rightarrow> scene \<Rightarrow> scene" where
  "onStatusModifiedEvent caller outputNode visualizationNodes auxVolumeNode s =
     (let apply = (\<lambda>s0.
            let s1 = SetAndObserveTransformNodeID (InputNode s0) (Some outputNode) s0;
                s2 = foldl (\<lambda>t n. RemoveNode n t) s1 visualizationNodes;
                s3 = RemoveNode auxVolumeNode s2
            in s3\<lparr> parameters := SetParameter (parameters s3) ''Running'' ''false'' \<rparr>)
      in case caller of
           None \<Rightarrow> apply s
         | Some (cliNode, status) \<Rightarrow>
             if status = ''Completed''
             then apply (s\<lparr> scheduledRemovals := scheduledRemovals s @ [cliNode] \<rparr>)
             else s)"

text \<open>The radius string: the descriptions of the selected target points, comma-joined.\<close>

definition radiusString :: "controlPoint list \<Rightarrow> string" where
  "radiusString pts = str_join '','' (map description (filter selected pts))"

text \<open>
  \<open>onCalculateButton\<close>. The arguments \<open>userSpacing\<close> and \<open>stiff\<close> are the floats that
  \<open>float(GetParameter("Spacing"))\<close> and \<open>float(GetParameter("Stiffness"))\<close> returned.
  The recovery snapshot is recorded by the path it is written under.
\<close>

definition onCalculateButton :: "real \<Rightarrow> real \<Rightarrow> scene \<Rightarrow> error + scene" where
  "onCalculateButton userSpacing stiff s =
     (let sourceFiducial = SourceFiducial s; targetFiducial = TargetFiducial s in
      (case resolveGrid (gridDefinition s (InputNode s)) userSpacing of
        Inl e \<Rightarrow> Inl e
      | Inr g \<Rightarrow>
         (case emptyVolume g s of (auxVolumeNode, s1) \<Rightarrow>
          (let outputNode = OutputGridTransform s1;
               radius = radiusString (controlPoints s1 targetFiducial);
               s2 = (if GetParameter (parameters s1) ''subjectPath'' \<noteq> []
                     then s1\<lparr> savedScenes := savedScenes s1
                                @ [GetParameter (parameters s1) ''subjectPath''] \<rparr>
                     else s1);
               s3 = SetAndObserveTransformNodeID (InputNode s2) None s2
           in (case previewWarp sourceFiducial targetFiducial s3 of
                (visualizationNodes, s4) \<Rightarrow>
           (let s5 = s4\<lparr> parameters := SetParameter (parameters s4) ''Running'' ''true'' \<rparr>
            in (case run auxVolumeNode outputNode sourceFiducial targetFiducial radius
                       stiff s5 of
                  Inl e \<Rightarrow> Inl e
                | Inr (Some cliNode, s6) \<Rightarrow>
                    Inr (s6\<lparr> statusObserver :=
                              Some (cliNode, outputNode, visualizationNodes,
                                    auxVolumeNode) \<rparr>)
                | Inr (None, s6) \<Rightarrow>
                    Inr (onStatusModifiedEvent None outputNode visualizationNodes
                           auxVolumeNode s6))))))))"

text \<open>
  The solver's node changes status: the registered observer, if any, runs the handler
  with the nodes it captured.
\<close>

definition statusModified :: "string \<Rightarrow> scene \<Rightarrow> scene" where
  "statusModified status s =
     (case statusObserver s of
        None \<Rightarrow> s
      | Some (cliNode, outputNode, visualizationNodes, auxVolumeNode) \<Rightarrow>
          onStatusModifiedEvent (Some (cliNode, status)) outputNode visualizationNodes
            auxVolumeNode s)"

section \<open>Example subjects\<close>

text \<open>
  A BIDS subject \<open>/data/sub-01\<close>: its approval metadata is a JSON object, both warp
  fields are still stored as composite \<open>.h5\<close> transforms, and one normalized and one
  coregistered image are there for the two searches.
\<close>

definition bidsSubject :: filesystem where
  \<open>bidsSubject =
     \<lparr> files =
         [''/data/sub-01/normalization/log/sub-01_desc-normmethod.json''
            \<mapsto> Text ''{"method": "ANTs (Avants 2008)", "approval": 0}'',
          ''/data/sub-01/normalization/transformations/sub-01_from-anchorNative_to-MNI152NLin2009bAsym_desc-ants.h5''
            \<mapsto> Binary,
          ''/data/sub-01/normalization/transformations/sub-01_from-MNI152NLin2009bAsym_to-anchorNative_desc-ants.h5''
            \<mapsto> Binary,
          ''/data/sub-01/normalization/anat/sub-01_space-MNI152NLin2009bAsym_ses-preop_T1w.nii''
            \<mapsto> Binary,
          ''/data/sub-01/coregistration/anat/sub-01_ses-preop_T1w.nii''
            \<mapsto> Binary],
       dirs =
         [''/data'', ''/data/sub-01'', ''/data/sub-01/preprocessing'',
          ''/data/sub-01/coregistration'', ''/data/sub-01/coregistration/anat'',
          ''/data/sub-01/normalization'', ''/data/sub-01/normalization/anat'',
          ''/data/sub-01/normalization/log'',
          ''/data/sub-01/normalization/transformations''],
       cwd = ''/'',
       globbed = (\<lambda>pattern.
         if pattern = ''/data/sub-01/normalization/anat/sub-01*ses-preop*.nii''
         then [''/data/sub-01/normalization/anat/sub-01_space-MNI152NLin2009bAsym_ses-preop_T1w.nii'']
         else if pattern = ''/data/sub-01/coregistration/anat/sub-01*ses-preop_*.nii''
         then [''/data/sub-01/coregistration/anat/sub-01_ses-preop_T1w.nii'']
         else []),
       commands = [] \<rparr>\<close>

text \<open>A legacy subject \<open>/data/patient7\<close> with no approval file yet.\<close>

definition legacySubject :: filesystem where
  "legacySubject =
     \<lparr> files =
         [''/data/patient7/glanatComposite.nii.gz'' \<mapsto> Binary,
          ''/data/patient7/glanat.nii'' \<mapsto> Binary],
       dirs = [''/data'', ''/data/patient7''],
       cwd = ''/'',
       globbed = (\<lambda>pattern.
         if pattern = ''/data/patient7/glanat*.nii'' then [''/data/patient7/glanat.nii'']
         else []),
       commands = [] \<rparr>"

text \<open>The legacy subject with its forward warp still stored as a composite.\<close>

definition legacyComposite :: filesystem where
  "legacyComposite =
     legacySubject\<lparr> files := (files legacySubject)
                      (''/data/patient7/glanatComposite.h5'' \<mapsto> Binary) \<rparr>"

section \<open>Example scene\<close>

text \<open>
  A scene with an input transform (node 0) observing the output transform (node 3), a
  source and a target fiducial of four points each (nodes 1 and 2; the first target
  point is not selected), and an image volume (node 4).
\<close>

definition exampleScene :: scene where
  "exampleScene =
     \<lparr> sceneNodes = [0, 1, 2, 3, 4],
       nextID = 5,
       controlPoints = (\<lambda>n.
         if n = 1 then
           [\<lparr> position = (10, 0, 0), selected = True, description = ''15'' \<rparr>,
            \<lparr> position = (0, 10, 0), selected = True, description = ''30'' \<rparr>,
            \<lparr> position = (0, 0, 10), selected = True, description = ''25'' \<rparr>,
            \<lparr> position = (5, 5, 5), selected = True, description = ''40'' \<rparr>]
         else if n = 2 then
           [\<lparr> position = (11, 0, 0), selected = False, description = ''15'' \<rparr>,
            \<lparr> position = (0, 12, 0), selected = True, description = ''30'' \<rparr>,
            \<lparr> position = (0, 0, 13), selected = True, description = ''25'' \<rparr>,
            \<lparr> position = (5, 6, 5), selected = True, description = ''40'' \<rparr>]
         else []),
       gridDefinition = (\<lambda>n.
         \<lparr> gridSize = (10, 12, 14), gridOrigin = (- 5, - 6, - 7), gridSpacing = (1, 1, 1) \<rparr>),
       volumes =
         [4 \<mapsto> \<lparr> gridSize = (10, 12, 14), gridOrigin = (- 5, - 6, - 7),
                 gridSpacing = (1, 1, 1) \<rparr>],
       gridTransforms = Map.empty,
       InputNode = 0,
       SourceFiducial = 1,
       TargetFiducial = 2,
       OutputGridTransform = 3,
       observedTransform = [0 \<mapsto> 3],
       parameters = (\<lambda>k. [])(''Running'' := ''false''),
       cliRuns = [],
       statusObserver = None,
       scheduledRemovals = [],
       savedScenes = [] \<rparr>"

text \<open>The same scene with no control points at all.\<close>

definition emptyScene :: scene where
  "emptyScene = exampleScene\<lparr> controlPoints := (\<lambda>n. []) \<rparr>"

text \<open>
  What a commit leaves behind: the transform the input node observes, and the nodes of
  the scene.
\<close>

definition attachedTransform :: "error + scene \<Rightarrow> nodeID option" where
  "attachedTransform r =
     (case r of Inl e \<Rightarrow> None | Inr s \<Rightarrow> observedTransform s (InputNode s))"

definition nodesOf :: "error + scene \<Rightarrow> nodeID list" where
  "nodesOf r = (case r of Inl e \<Rightarrow> [] | Inr s \<Rightarrow> sceneNodes s)"

text \<open>A commit followed by one status change of the solver's node.\<close>

definition commitThenStatus :: "real \<Rightarrow> real \<Rightarrow> string \<Rightarrow> scene \<Rightarrow> error + scene" where
  "commitThenStatus u stiff status s =
     (case onCalculateButton u stiff s of
        Inl e \<Rightarrow> Inl e
      | Inr s1 \<Rightarrow> Inr (statusModified status s1))"

section \<open>Layout resolution\<close>

text \<open>
  C7. The layout kind of a subject root is decided in the constructor of the resolver,
  from one fact about the directory contents: BIDS when the root has a
  \<open>preprocessing\<close> subdirectory, Legacy otherwise. Two file systems that agree on that
  fact give the same resolver, and the resolver keeps the flag it computed.
\<close>

theorem layout_kind_resolution:
  "layout_kind (LeadFileManager_init fs sp) =
     (if os_path_isdir fs (os_path_join sp [''preprocessing'']) then BIDS else Legacy)
   \<and> (os_path_isdir fs' (os_path_join sp [''preprocessing''])
        = os_path_isdir fs (os_path_join sp [''preprocessing''])
      \<longrightarrow> LeadFileManager_init fs' sp = LeadFileManager_init fs sp)"
  by (simp add: layout_kind_def LeadFileManager_init_def)

theorem layout_kind_resolution_witness:
  "layout_kind (LeadFileManager_init bidsSubject ''/data/sub-01'') = BIDS
   \<and> layout_kind (LeadFileManager_init legacySubject ''/data/patient7'') = Legacy
   \<and> (os_path_isdir (bidsSubject\<lparr> cwd := ''/data'' \<rparr>)
          (os_path_join ''/data/sub-01'' [''preprocessing''])
        = os_path_isdir bidsSubject (os_path_join ''/data/sub-01'' [''preprocessing'']))
   \<and> LeadFileManager_init (bidsSubject\<lparr> cwd := ''/data'' \<rparr>) ''/data/sub-01''
        = LeadFileManager_init bidsSubject ''/data/sub-01''"
proof -
  have d1: "os_path_isdir bidsSubject (os_path_join ''/data/sub-01'' [''preprocessing''])"
    by code_simp
  have d2: "\<not> os_path_isdir legacySubject (os_path_join ''/data/patient7'' [''preprocessing''])"
    by code_simp
  have d3: "os_path_isdir (bidsSubject\<lparr> cwd := ''/data'' \<rparr>)
              (os_path_join ''/data/sub-01'' [''preprocessing''])"
    by code_simp
  show ?thesis
    using layout_kind_resolution
            [of bidsSubject "''/data/sub-01''" "bidsSubject\<lparr> cwd := ''/data'' \<rparr>"]
          layout_kind_resolution [of legacySubject "''/data/patient7''" legacySubject]
          d1 d2 d3
    by simp
qed

section \<open>Default parameters\<close>

lemma setIfEmpty_apply:
  "setIfEmpty k v n j = (if j = k \<and> n k = [] then v else n j)"
  by (simp add: setIfEmpty_def GetParameter_def SetParameter_def)

lemma setDefaultParameters_nonempty:
  "n k \<noteq> [] \<Longrightarrow> setDefaultParameters n k = n k"
  by (auto simp add: setDefaultParameters_def setIfEmpty_apply)

lemma setDefaultParameters_other:
  "k \<notin> set defaultedParameters \<Longrightarrow> setDefaultParameters n k = n k"
  by (simp add: setDefaultParameters_def setIfEmpty_apply defaultedParameters_def)

lemma setDefaultParameters_fills:
  "k \<in> set defaultedParameters \<Longrightarrow> setDefaultParameters n k \<noteq> []"
  by (auto simp add: setDefaultParameters_def setIfEmpty_apply defaultedParameters_def)

lemma setDefaultParameters_idem:
  "setDefaultParameters (setDefaultParameters n) = setDefaultParameters n"
proof (rule ext)
  fix k
  show "setDefaultParameters (setDefaultParameters n) k = setDefaultParameters n k"
  proof (cases "k \<in> set defaultedParameters")
    case True
    then show ?thesis
      by (simp add: setDefaultParameters_fills setDefaultParameters_nonempty)
  next
    case False
    then show ?thesis by (simp add: setDefaultParameters_other)
  qed
qed

text \<open>
  C10. \<open>setDefaultParameters\<close> leaves every parameter that holds a non-empty value as
  it is, touches no parameter outside Radius, Spacing, RBFRadius, Stiffness, DrawMode
  and Running, gives each of these six a non-empty value when it was empty, and applying
  it twice is the same as applying it once.
\<close>

theorem setDefaultParameters_keeps_values:
  "(GetParameter n k \<noteq> [] \<longrightarrow> GetParameter (setDefaultParameters n) k = GetParameter n k)
   \<and> (k \<notin> set defaultedParameters \<longrightarrow>
        GetParameter (setDefaultParameters n) k = GetParameter n k)
   \<and> (k \<in> set defaultedParameters \<and> GetParameter n k = [] \<longrightarrow>
        GetParameter (setDefaultParameters n) k \<noteq> [])
   \<and> setDefaultParameters (setDefaultParameters n) = setDefaultParameters n"
  by (simp add: GetParameter_def setDefaultParameters_nonempty setDefaultParameters_other
        setDefaultParameters_fills setDefaultParameters_idem)

theorem setDefaultParameters_keeps_values_witness:
  "GetParameter ((\<lambda>k. [])(''Spacing'' := ''0.5'')) ''Spacing'' \<noteq> []
   \<and> GetParameter (setDefaultParameters ((\<lambda>k. [])(''Spacing'' := ''0.5''))) ''Spacing'' = ''0.5''
   \<and> ''Radius'' \<in> set defaultedParameters
   \<and> GetParameter ((\<lambda>k. [])(''Spacing'' := ''0.5'')) ''Radius'' = []
   \<and> GetParameter (setDefaultParameters ((\<lambda>k. [])(''Spacing'' := ''0.5''))) ''Radius'' \<noteq> []
   \<and> ''subjectPath'' \<notin> set defaultedParameters
   \<and> GetParameter (setDefaultParameters ((\<lambda>k. [])(''Spacing'' := ''0.5''))) ''subjectPath'' = []"
  using setDefaultParameters_keeps_values [of "(\<lambda>k. [])(''Spacing'' := ''0.5'')" "''Spacing''"]
        setDefaultParameters_keeps_values [of "(\<lambda>k. [])(''Spacing'' := ''0.5'')" "''Radius''"]
        setDefaultParameters_keeps_values [of "(\<lambda>k. [])(''Spacing'' := ''0.5'')" "''subjectPath''"]
  by (simp add: GetParameter_def defaultedParameters_def)

section \<open>Float rounding\<close>

lemma ilog2_up_numeral:
  "ilog2_up (numeral k) x = (if x < 2 then 0 else 1 + ilog2_up (pred_numeral k) (x / 2))"
  by (simp add: numeral_eq_Suc)

lemma ilog2_down_numeral:
  "ilog2_down (numeral k) x = (if 1 \<le> x then 0 else ilog2_down (pred_numeral k) (2 * x) - 1)"
  by (simp add: numeral_eq_Suc)

lemmas float_eval = axisProduct_def np_multiply_def np_divide_def float64_def binade_def
  round_half_even_def ilog2_up_numeral ilog2_down_numeral Let_def

lemma ilog2_up_spec:
  "1 \<le> x \<Longrightarrow>
   0 \<le> ilog2_up k x \<and> ilog2_up k x \<le> int k \<and> 2 powi (ilog2_up k x) \<le> x
   \<and> (x < 2 ^ k \<longrightarrow> x < 2 powi (ilog2_up k x + 1))"
proof (induction k arbitrary: x)
  case 0
  then show ?case by simp
next
  case (Suc k)
  show ?case
  proof (cases "x < 2")
    case True
    then show ?thesis using Suc.prems by simp
  next
    case False
    then have h: "1 \<le> x / 2" by simp
    note ih = Suc.IH [OF h]
    let ?e = "ilog2_up k (x / 2)"
    have e0: "0 \<le> ?e" using ih by simp
    have a: "(2::real) powi (1 + ?e) = 2 * 2 powi ?e"
      by (simp add: power_int_add)
    have b: "(2::real) powi (1 + ?e + 1) = 2 * 2 powi (?e + 1)"
      by (simp add: power_int_add)
    have c: "2 * 2 powi ?e \<le> x" using ih by simp
    have d: "x < 2 ^ Suc k \<longrightarrow> x < 2 * 2 powi (?e + 1)"
    proof
      assume "x < 2 ^ Suc k"
      then have "x / 2 < 2 ^ k" by simp
      then have "x / 2 < 2 powi (?e + 1)" using ih by blast
      then show "x < 2 * 2 powi (?e + 1)" by simp
    qed
    have r: "ilog2_up (Suc k) x = 1 + ?e" using False by simp
    show ?thesis unfolding r a b using ih c d by simp
  qed
qed

lemma ilog2_down_ge1: "1 \<le> x \<Longrightarrow> ilog2_down k x = 0"
  by (cases k) simp_all

lemma ilog2_down_spec:
  "0 < x \<Longrightarrow> x < 1 \<Longrightarrow>
   - int k \<le> ilog2_down k x \<and> ilog2_down k x \<le> 0
   \<and> x < 2 powi (ilog2_down k x + 1)
   \<and> (2 powi (ilog2_down k x) \<le> x \<or> ilog2_down k x = - int k)"
proof (induction k arbitrary: x)
  case 0
  then show ?case by simp
next
  case (Suc k)
  show ?case
  proof (cases "1 \<le> 2 * x")
    case True
    then have "ilog2_down (Suc k) x = - 1"
      using Suc.prems by (simp add: ilog2_down_ge1)
    then show ?thesis using True Suc.prems by simp
  next
    case False
    then have h: "0 < 2 * x" "2 * x < 1" using Suc.prems by simp_all
    note ih = Suc.IH [OF h]
    let ?d = "ilog2_down k (2 * x)"
    have e: "ilog2_down (Suc k) x = ?d - 1" using Suc.prems by simp
    have a: "(2::real) powi (?d + 1) = 2 * 2 powi ?d" by (simp add: power_int_add)
    have b: "(2::real) powi ?d = 2 * 2 powi (?d - 1)"
      using power_int_add [of "2::real" "?d - 1" 1] by simp
    have c: "x < 2 powi ?d" using ih a by simp
    have d: "2 powi (?d - 1) \<le> x \<or> ?d = - int k" using ih b by auto
    have f: "?d - 1 + 1 = ?d" by simp
    show ?thesis unfolding e f using ih c d by auto
  qed
qed

lemma round_half_even_error: "\<bar>of_int (round_half_even r) - r\<bar> \<le> 1 / 2"
proof -
  have "of_int \<lfloor>r\<rfloor> \<le> r" "r < of_int \<lfloor>r\<rfloor> + 1" by linarith+
  then show ?thesis by (auto simp add: round_half_even_def Let_def)
qed

lemma round_half_even_of_int [simp]: "round_half_even (of_int k) = k"
  by (simp add: round_half_even_def)

lemma round_half_even_nonneg: "0 \<le> r \<Longrightarrow> 0 \<le> round_half_even r"
  by (auto simp add: round_half_even_def Let_def)


lemma binade_spec:
  assumes "0 < x"
  shows "- 1022 \<le> binade x \<and> binade x \<le> 1024 \<and> (2 powi (binade x) \<le> x \<or> binade x = - 1022)
         \<and> (x < 2 ^ 1024 \<longrightarrow> x < 2 powi (binade x + 1))"
proof (cases "1 \<le> x")
  case True
  then show ?thesis
    using ilog2_up_spec [OF True, of 1024] by (simp add: binade_def)
next
  case False
  then have x1: "x < 1" by simp
  have "x < 2 powi (ilog2_down 1022 x + 1)"
    using ilog2_down_spec [OF assms x1, of 1022] by blast
  then show ?thesis
    using ilog2_down_spec [OF assms x1, of 1022] False by (simp add: binade_def)
qed

lemma binade_le_1023:
  assumes "0 < x" "x \<le> 2 ^ 1023"
  shows "binade x \<le> 1023"
proof (rule ccontr)
  assume "\<not> binade x \<le> 1023"
  then have e: "binade x = 1024" using binade_spec [OF assms(1)] by simp
  then have "2 powi (binade x) \<le> x" using binade_spec [OF assms(1)] by auto
  then have "(2::real) ^ 1024 \<le> x" by (simp add: e)
  moreover have "(2::real) ^ 1023 < 2 ^ 1024" by simp
  ultimately show False using assms(2) by linarith
qed

lemma powi_step: "(2::real) powi (e - 52) = 2 powi (e - 53) * 2"
  using power_int_add [of "2::real" "e - 53" 1] by simp

lemma powi_split53: "(2::real) powi (e - 53) = 2 powi e / 2 ^ 53"
proof -
  have "(2::real) powi (e - 53 + 53) = 2 powi (e - 53) * 2 powi 53"
    by (rule power_int_add) simp
  then show ?thesis by simp
qed

text \<open>Positive arguments below the overflow threshold round to a finite value.\<close>

lemma float64_pos:
  assumes "0 < a" "a \<le> 2 ^ 1023"
  shows "\<exists>y. float64 a = Fin y \<and> 0 \<le> y \<and> \<bar>y - a\<bar> \<le> a / 2 ^ 53 + 1 / 2 ^ 1075"
proof -
  let ?e = "binade a"
  let ?q = "(2::real) powi (?e - 52)"
  let ?h = "(2::real) powi (?e - 53)"
  let ?m = "round_half_even (a / ?q)"
  let ?y = "of_int ?m * ?q"
  have q0: "0 < ?q" by simp
  have qh: "?q = ?h * 2" by (rule powi_step)
  have h0: "0 < ?h" by simp
  have m0: "0 \<le> ?m" using assms(1) q0 by (intro round_half_even_nonneg) simp
  have "\<bar>of_int ?m - a / ?q\<bar> \<le> 1 / 2" by (rule round_half_even_error)
  then have s1: "\<bar>of_int ?m - a / ?q\<bar> * ?q \<le> 1 / 2 * ?q"
    using q0 by (intro mult_right_mono) simp_all
  have s2: "\<bar>of_int ?m - a / ?q\<bar> * ?q = \<bar>?y - a\<bar>"
  proof -
    have "\<bar>of_int ?m - a / ?q\<bar> * ?q = \<bar>(of_int ?m - a / ?q) * ?q\<bar>"
      using q0 by (simp add: abs_mult)
    also have "(of_int ?m - a / ?q) * ?q = ?y - a"
      using q0 by (simp add: algebra_simps)
    finally show ?thesis .
  qed
  have s3: "\<bar>?y - a\<bar> \<le> 1 / 2 * ?q" using s1 unfolding s2 .
  have s4: "1 / 2 * ?q = ?h" unfolding qh by simp
  have err: "\<bar>?y - a\<bar> \<le> ?h" using s3 unfolding s4 .
  have e1023: "?e \<le> 1023" using assms by (rule binade_le_1023)
  have hle: "?h \<le> 2 ^ 970"
  proof -
    have "(2::real) powi (?e - 53) \<le> 2 powi 970"
      using e1023 by (intro power_int_increasing) simp_all
    then show ?thesis by simp
  qed
  have hsmall: "?h \<le> a / 2 ^ 53 + 1 / 2 ^ 1075"
  proof -
    have c: "2 powi ?e \<le> a \<or> ?e = - 1022" using binade_spec [OF assms(1)] by blast
    show ?thesis
    proof (cases "2 powi ?e \<le> a")
      case True
      then have "2 powi ?e / 2 ^ 53 \<le> a / 2 ^ 53" by (simp add: divide_right_mono)
      then show ?thesis by (simp add: powi_split53)
    next
      case False
      then have "?e = - 1022" using c by blast
      then have "?h = 2 powi (- 1075)" by simp
      also have "\<dots> = 1 / 2 ^ 1075" by (simp add: power_int_minus_divide)
      finally show ?thesis using assms(1) by simp
    qed
  qed
  have fin: "?y < 2 ^ 1024"
  proof -
    have "?y \<le> a + ?h" using err by linarith
    also have "\<dots> \<le> 2 ^ 1023 + 2 ^ 970" using assms(2) hle by linarith
    also have "\<dots> < (2::real) ^ 1024" by simp
    finally show ?thesis .
  qed
  have y0: "0 \<le> ?y" using m0 q0 by simp
  have "float64 a = Fin ?y"
    using assms(1) fin by (simp add: float64_def Let_def)
  then show ?thesis using y0 err hsmall by (intro exI [of _ ?y]) linarith
qed

lemma float64_neg: "x \<noteq> 0 \<Longrightarrow> float64 (- x) = (case float64 x of
    Fin y \<Rightarrow> Fin (- y) | PosInf \<Rightarrow> NegInf | NegInf \<Rightarrow> PosInf | NaN \<Rightarrow> NaN)"
  by (simp add: float64_def Let_def)

lemma float64_finite:
  assumes "\<bar>x\<bar> \<le> 2 ^ 1023"
  shows "\<exists>y. float64 x = Fin y \<and> (0 \<le> x \<longrightarrow> 0 \<le> y) \<and> (x \<le> 0 \<longrightarrow> y \<le> 0)
           \<and> \<bar>y - x\<bar> \<le> \<bar>x\<bar> / 2 ^ 53 + 1 / 2 ^ 1075"
proof -
  consider "x = 0" | "0 < x" | "x < 0" by linarith
  then show ?thesis
  proof cases
    case 1
    then show ?thesis by (simp add: float64_def)
  next
    case 2
    then show ?thesis using float64_pos [of x] assms by auto
  next
    case 3
    then have p: "0 < - x" "- x \<le> 2 ^ 1023" using assms by simp_all
    obtain y where y: "float64 (- x) = Fin y" "0 \<le> y" "\<bar>y - (- x)\<bar> \<le> - x / 2 ^ 53 + 1 / 2 ^ 1075"
      using float64_pos [OF p] by blast
    have "float64 x = Fin (- y)"
      using float64_neg [of "- x"] 3 y(1) by simp
    moreover have "\<bar>- y - x\<bar> = \<bar>y - (- x)\<bar>" by simp
    ultimately show ?thesis using y 3 by (intro exI [of _ "- y"]) auto
  qed
qed


lemma float64_of_int:
  assumes "\<bar>n\<bar> < 2 ^ 53"
  shows "float64 (of_int n) = Fin (of_int n)"
proof -
  have pos: "float64 (of_int k) = Fin (of_int k)" if k: "0 < k" "k < 2 ^ 53" for k :: int
  proof -
    let ?a = "real_of_int k"
    have a1: "1 \<le> ?a" using k(1) by simp
    have a53: "?a < 2 ^ 53"
    proof -
      have "real_of_int k < real_of_int (2 ^ 53)" using k(2) by (simp only: of_int_less_iff)
      then show ?thesis by simp
    qed
    let ?e = "binade ?a"
    have be: "?e = ilog2_up 1024 ?a" using a1 by (simp add: binade_def)
    have e0: "0 \<le> ?e" and le: "2 powi ?e \<le> ?a"
      using ilog2_up_spec [OF a1, of 1024] by (simp_all add: be)
    have e52: "?e \<le> 52"
    proof (rule ccontr)
      assume "\<not> ?e \<le> 52"
      then have "53 \<le> ?e" by simp
      then have "(2::real) powi 53 \<le> 2 powi ?e" by (intro power_int_increasing) simp_all
      then show False using le a53 by simp
    qed
    define K where "K = nat (52 - ?e)"
    have q: "(2::real) powi (?e - 52) = 1 / 2 ^ K"
    proof -
      have "(2::real) powi (?e - 52) = 2 powi (- (52 - ?e))" by simp
      also have "\<dots> = 1 / 2 powi (52 - ?e)" by (rule power_int_minus_divide)
      also have "(2::real) powi (52 - ?e) = 2 ^ K" using e52 by (simp add: power_int_def K_def)
      finally show ?thesis .
    qed
    have d: "?a / (1 / 2 ^ K) = of_int (k * 2 ^ K)" by simp
    have m: "round_half_even (?a / (1 / 2 ^ K)) = k * 2 ^ K"
      unfolding d by (rule round_half_even_of_int)
    have y: "of_int (k * 2 ^ K) * (1 / 2 ^ K) = ?a" by simp
    have small: "\<not> (2::real) ^ 1024 \<le> ?a"
    proof -
      have "(2::real) ^ 53 < 2 ^ 1024" by simp
      then show ?thesis using a53 by linarith
    qed
    have nz: "?a \<noteq> 0" "0 < ?a" "\<bar>?a\<bar> = ?a" using a1 by simp_all
    show ?thesis
      unfolding float64_def Let_def nz(3) q m y using nz small by simp
  qed
  consider "n = 0" | "0 < n" | "n < 0" by linarith
  then show ?thesis
  proof cases
    case 1
    then show ?thesis by (simp add: float64_def)
  next
    case 2
    then show ?thesis using pos [of n] assms by simp
  next
    case 3
    then have "float64 (of_int (- n)) = Fin (of_int (- n))" using pos [of "- n"] assms by simp
    then show ?thesis using float64_neg [of "of_int (- n)"] 3 by simp
  qed
qed

lemma axis_product:
  assumes u: "u \<noteq> 0" and n: "\<bar>n\<bar> < 2 ^ 53"
    and r: "\<bar>s / u\<bar> \<le> 2 ^ 1022" and x: "\<bar>of_int n * s / u\<bar> \<le> 2 ^ 1022"
  shows "\<exists>p. axisProduct n s u = Fin p
           \<and> \<bar>p - of_int n * s / u\<bar> \<le> \<bar>of_int n * s / u\<bar> / 2 ^ 51 + 1 / 2 ^ 1021
           \<and> (0 \<le> of_int n * s / u \<longrightarrow> 0 \<le> p)"
proof -
  define N where "N = real_of_int n"
  define R where "R = s / u"
  define X where "X = N * R"
  define \<epsilon> where "\<epsilon> = (1::real) / 2 ^ 53"
  define \<eta> where "\<eta> = (1::real) / 2 ^ 1075"
  have XX: "of_int n * s / u = X" by (simp add: X_def N_def R_def)
  have eps: "0 < \<epsilon>" "\<epsilon> \<le> 1" and eta: "0 < \<eta>" by (simp_all add: \<epsilon>_def \<eta>_def)
  have N53: "\<bar>N\<bar> < 2 ^ 53"
  proof -
    have "real_of_int \<bar>n\<bar> < real_of_int (2 ^ 53)" using n by (simp only: of_int_less_iff)
    then show ?thesis by (simp add: N_def)
  qed
  have R1023: "\<bar>R\<bar> \<le> 2 ^ 1023"
  proof -
    have "(2::real) ^ 1022 \<le> 2 ^ 1023" by simp
    then show ?thesis using r by (simp add: R_def)
  qed
  obtain q where q: "float64 R = Fin q" "0 \<le> R \<longrightarrow> 0 \<le> q" "R \<le> 0 \<longrightarrow> q \<le> 0"
      "\<bar>q - R\<bar> \<le> \<bar>R\<bar> * \<epsilon> + \<eta>"
    using float64_finite [OF R1023] by (auto simp add: \<epsilon>_def \<eta>_def)
  have Xabs: "\<bar>X\<bar> = \<bar>N\<bar> * \<bar>R\<bar>" by (simp add: X_def abs_mult)
  have X1022: "\<bar>X\<bar> \<le> 2 ^ 1022" using x by (simp add: XX)
  have A2: "\<bar>q\<bar> \<le> \<bar>R\<bar> + \<bar>R\<bar> * \<epsilon> + \<eta>" using q(4) by linarith
  have A3: "\<bar>N * q\<bar> \<le> \<bar>X\<bar> + \<bar>X\<bar> * \<epsilon> + \<bar>N\<bar> * \<eta>"
  proof -
    have "\<bar>N * q\<bar> = \<bar>N\<bar> * \<bar>q\<bar>" by (simp add: abs_mult)
    also have "\<dots> \<le> \<bar>N\<bar> * (\<bar>R\<bar> + \<bar>R\<bar> * \<epsilon> + \<eta>)"
      using A2 by (intro mult_left_mono) simp_all
    also have "\<dots> = \<bar>X\<bar> + \<bar>X\<bar> * \<epsilon> + \<bar>N\<bar> * \<eta>" by (simp add: Xabs algebra_simps)
    finally show ?thesis .
  qed
  have B1: "\<bar>X\<bar> * \<epsilon> \<le> 2 ^ 1022 * \<epsilon>" using X1022 eps(1) by (intro mult_right_mono) simp_all
  have B2: "\<bar>N\<bar> * \<eta> \<le> 2 ^ 53 * \<eta>" using N53 eta by (intro mult_right_mono) simp_all
  have B3: "(2::real) ^ 1022 + 2 ^ 1022 * \<epsilon> + 2 ^ 53 * \<eta> \<le> 2 ^ 1023"
    by (simp add: \<epsilon>_def \<eta>_def)
  have A4: "\<bar>N * q\<bar> \<le> 2 ^ 1023" using A3 B1 B2 B3 X1022 by linarith
  obtain p where p: "float64 (N * q) = Fin p" "0 \<le> N * q \<longrightarrow> 0 \<le> p"
      "\<bar>p - N * q\<bar> \<le> \<bar>N * q\<bar> * \<epsilon> + \<eta>"
    using float64_finite [OF A4] by (auto simp add: \<epsilon>_def \<eta>_def)
  have A5: "\<bar>N * q\<bar> * \<epsilon> \<le> (\<bar>X\<bar> + \<bar>X\<bar> * \<epsilon> + \<bar>N\<bar> * \<eta>) * \<epsilon>"
    using A3 eps(1) by (intro mult_right_mono) simp_all
  have A6: "\<bar>N * q - X\<bar> \<le> \<bar>X\<bar> * \<epsilon> + \<bar>N\<bar> * \<eta>"
  proof -
    have "N * q - X = N * (q - R)" by (simp add: X_def algebra_simps)
    then have "\<bar>N * q - X\<bar> = \<bar>N\<bar> * \<bar>q - R\<bar>" by (simp add: abs_mult)
    also have "\<dots> \<le> \<bar>N\<bar> * (\<bar>R\<bar> * \<epsilon> + \<eta>)" using q(4) by (intro mult_left_mono) simp_all
    also have "\<dots> = \<bar>X\<bar> * \<epsilon> + \<bar>N\<bar> * \<eta>" by (simp add: Xabs algebra_simps)
    finally show ?thesis .
  qed
  have C1: "\<bar>X\<bar> * \<epsilon> * \<epsilon> \<le> \<bar>X\<bar> * \<epsilon>"
  proof -
    have "\<bar>X\<bar> * \<epsilon> * \<epsilon> \<le> \<bar>X\<bar> * \<epsilon> * 1" using eps by (intro mult_left_mono) simp_all
    then show ?thesis by simp
  qed
  have C2: "\<bar>N\<bar> * \<eta> * \<epsilon> \<le> \<eta>"
  proof -
    have "\<bar>N\<bar> * \<epsilon> \<le> 1" using N53 by (simp add: \<epsilon>_def)
    then have "\<bar>N\<bar> * \<epsilon> * \<eta> \<le> 1 * \<eta>" using eta by (intro mult_right_mono) simp_all
    then show ?thesis by (simp add: mult.commute mult.left_commute)
  qed
  have C3: "(\<bar>X\<bar> + \<bar>X\<bar> * \<epsilon> + \<bar>N\<bar> * \<eta>) * \<epsilon> = \<bar>X\<bar> * \<epsilon> + \<bar>X\<bar> * \<epsilon> * \<epsilon> + \<bar>N\<bar> * \<eta> * \<epsilon>"
    by (simp add: algebra_simps)
  have C4: "\<bar>X\<bar> * \<epsilon> * 4 = \<bar>X\<bar> / 2 ^ 51" by (simp add: \<epsilon>_def)
  have C5: "2 * \<eta> + 2 ^ 53 * \<eta> \<le> 1 / 2 ^ 1021" by (simp add: \<eta>_def)
  have X0: "0 \<le> \<bar>X\<bar> * \<epsilon>" using eps(1) by simp
  have "\<bar>p - X\<bar> \<le> \<bar>p - N * q\<bar> + \<bar>N * q - X\<bar>" by linarith
  then have "\<bar>p - X\<bar> \<le> \<bar>X\<bar> * \<epsilon> * 4 + (2 * \<eta> + 2 ^ 53 * \<eta>)"
    using p(3) A5 A6 C1 C2 C3 B2 X0 by linarith
  then have bound: "\<bar>p - X\<bar> \<le> \<bar>X\<bar> / 2 ^ 51 + 1 / 2 ^ 1021" using C4 C5 by linarith
  have sign: "0 \<le> X \<longrightarrow> 0 \<le> p"
  proof
    assume "0 \<le> X"
    then have "(0 \<le> N \<and> 0 \<le> R) \<or> (N \<le> 0 \<and> R \<le> 0)" by (simp add: X_def zero_le_mult_iff)
    then have "0 \<le> N * q" using q(2,3) by (auto simp add: zero_le_mult_iff)
    then show "0 \<le> p" using p(2) by blast
  qed
  have "axisProduct n s u = Fin p"
    using u q(1) p(1) float64_of_int [OF n]
    by (simp add: axisProduct_def np_multiply_def np_divide_def N_def R_def)
  then show ?thesis using bound sign by (auto simp add: XX)
qed

section \<open>Grid resolution\<close>

lemma py_int_finite: "py_int (Fin p) = Inr (trunc p)"
  by (simp add: trunc_def)

lemma py_int_error: "py_int x = Inl e \<Longrightarrow> e = OverflowError \<or> e = ValueError"
  by (cases x) auto

lemma py_int_not_finite:
  "\<not> isFinite x \<Longrightarrow> py_int x = Inl OverflowError \<or> py_int x = Inl ValueError"
  by (cases x) (auto simp add: isFinite_def)

lemma resolveGrid_finite:
  "axisProduct n1 s1 u = Fin p1 \<Longrightarrow> axisProduct n2 s2 u = Fin p2 \<Longrightarrow>
   axisProduct n3 s3 u = Fin p3 \<Longrightarrow>
   resolveGrid \<lparr> gridSize = (n1, n2, n3), gridOrigin = org, gridSpacing = (s1, s2, s3) \<rparr> u =
     Inr \<lparr> gridSize = (trunc p1, trunc p2, trunc p3), gridOrigin = org,
           gridSpacing = (u, u, u) \<rparr>"
  by (simp add: resolveGrid_def trunc_def)

lemma resolveGrid_error:
  "resolveGrid g u = Inl e \<Longrightarrow> e = OverflowError \<or> e = ValueError"
  by (auto simp add: resolveGrid_def split: prod.splits sum.splits dest: py_int_error)

lemma resolveGrid_not_finite:
  assumes "\<not> (isFinite (axisProduct n1 s1 u) \<and> isFinite (axisProduct n2 s2 u)
              \<and> isFinite (axisProduct n3 s3 u))"
  shows "resolveGrid \<lparr> gridSize = (n1, n2, n3), gridOrigin = org,
                        gridSpacing = (s1, s2, s3) \<rparr> u = Inl OverflowError
         \<or> resolveGrid \<lparr> gridSize = (n1, n2, n3), gridOrigin = org,
                          gridSpacing = (s1, s2, s3) \<rparr> u = Inl ValueError"
proof -
  let ?G = "\<lparr> gridSize = (n1, n2, n3), gridOrigin = org, gridSpacing = (s1, s2, s3) \<rparr>"
  have "\<exists>e. resolveGrid ?G u = Inl e"
    using assms py_int_not_finite [of "axisProduct n1 s1 u"]
      py_int_not_finite [of "axisProduct n2 s2 u"] py_int_not_finite [of "axisProduct n3 s3 u"]
    by (auto simp add: resolveGrid_def split: sum.splits)
  then show ?thesis using resolveGrid_error [of ?G u] by auto
qed

lemma axisProduct_zero: "\<not> isFinite (axisProduct n s 0)"
proof -
  have d: "np_divide s 0 = PosInf \<or> np_divide s 0 = NegInf \<or> np_divide s 0 = NaN"
    by (simp add: np_divide_def)
  have m: "\<not> isFinite (float_multiply x y)" if "y = PosInf \<or> y = NegInf \<or> y = NaN" for x y
    using that by (cases x) (auto simp add: isFinite_def split: if_splits)
  show ?thesis unfolding axisProduct_def np_multiply_def using d by (rule m)
qed

lemma resolveGrid_zero:
  "resolveGrid g 0 = Inl OverflowError \<or> resolveGrid g 0 = Inl ValueError"
proof -
  obtain n1 n2 n3 where n: "gridSize g = (n1, n2, n3)" by (cases "gridSize g") auto
  obtain s1 s2 s3 where s: "gridSpacing g = (s1, s2, s3)" by (cases "gridSpacing g") auto
  show ?thesis using py_int_not_finite [OF axisProduct_zero [of n1 s1]]
    by (auto simp add: resolveGrid_def n s)
qed

text \<open>
  From the truncated float product back to the field of view: the new extent is at most
  the old one grown by the rounding error, and less than one new voxel short of the old
  one shrunk by it.
\<close>

lemma fov_from_product:
  assumes u: "0 < u" and x: "0 \<le> x" and p: "0 \<le> p"
    and e: "\<bar>p - x\<bar> \<le> x / 2 ^ 51 + 1 / 2 ^ 1021"
  shows "of_int (trunc p) \<le> p \<and> p < of_int (trunc p) + 1
         \<and> of_int (trunc p) * u \<le> x * u * (1 + 1 / 2 ^ 51) + u / 2 ^ 1021
         \<and> x * u * (1 - 1 / 2 ^ 51) - u / 2 ^ 1021 < (of_int (trunc p) + 1) * u"
proof -
  define k where "k = real_of_int (trunc p)"
  have t: "trunc p = \<lfloor>p\<rfloor>" using p by (simp add: trunc_def)
  have k1: "k \<le> p" and k2: "p < k + 1" unfolding k_def t by linarith+
  have a: "k \<le> x + x / 2 ^ 51 + 1 / 2 ^ 1021" using k1 e by linarith
  have b: "x - x / 2 ^ 51 - 1 / 2 ^ 1021 < k + 1" using k2 e by linarith
  have "k * u \<le> (x + x / 2 ^ 51 + 1 / 2 ^ 1021) * u"
    using a u by (intro mult_right_mono) simp_all
  then have c: "k * u \<le> x * u * (1 + 1 / 2 ^ 51) + u / 2 ^ 1021" by (simp add: algebra_simps)
  have "(x - x / 2 ^ 51 - 1 / 2 ^ 1021) * u < (k + 1) * u"
    using b u by (intro mult_strict_right_mono)
  then have d: "x * u * (1 - 1 / 2 ^ 51) - u / 2 ^ 1021 < (k + 1) * u"
    by (simp add: algebra_simps)
  show ?thesis using k1 k2 c d by (simp add: k_def)
qed

lemma axis_field_of_view:
  assumes u: "0 < u" and r: "axisInRange n s u"
  shows "\<exists>p. axisProduct n s u = Fin p
           \<and> \<bar>p - of_int n * s / u\<bar> \<le> \<bar>of_int n * s / u\<bar> / 2 ^ 51 + 1 / 2 ^ 1021
           \<and> (0 \<le> of_int n * s \<longrightarrow>
                of_int (trunc p) \<le> p \<and> p < of_int (trunc p) + 1
              \<and> of_int (trunc p) * u \<le> of_int n * s * (1 + 1 / 2 ^ 51) + u / 2 ^ 1021
              \<and> of_int n * s * (1 - 1 / 2 ^ 51) - u / 2 ^ 1021 < (of_int (trunc p) + 1) * u)"
proof -
  let ?x = "of_int n * s / u"
  have u0: "u \<noteq> 0" using u by simp
  obtain p where p: "axisProduct n s u = Fin p"
      "\<bar>p - ?x\<bar> \<le> \<bar>?x\<bar> / 2 ^ 51 + 1 / 2 ^ 1021" "0 \<le> ?x \<longrightarrow> 0 \<le> p"
    using axis_product [OF u0, of n s] r unfolding axisInRange_def by blast
  have xu: "?x * u = of_int n * s" using u by simp
  have fov: "of_int (trunc p) \<le> p \<and> p < of_int (trunc p) + 1
              \<and> of_int (trunc p) * u \<le> of_int n * s * (1 + 1 / 2 ^ 51) + u / 2 ^ 1021
              \<and> of_int n * s * (1 - 1 / 2 ^ 51) - u / 2 ^ 1021 < (of_int (trunc p) + 1) * u"
    if ns: "0 \<le> of_int n * s"
  proof -
    have x0: "0 \<le> ?x" using ns u by simp
    then have e: "\<bar>p - ?x\<bar> \<le> ?x / 2 ^ 51 + 1 / 2 ^ 1021" using p(2) by simp
    show ?thesis using fov_from_product [OF u x0 _ e] p(3) x0 unfolding xu by blast
  qed
  show ?thesis using p(1,2) fov by blast
qed

text \<open>
  The computation on ordinary inputs where float rounding decides the size: 49 voxels
  of spacing 1 at override 49 give 0, since \<open>1.0 / 49.0\<close> rounds down and the product
  stays below 1; 197 voxels of spacing 1 at override 0.1 (the float nearest to it) give
  1970, since the quotient rounds up to 10.
\<close>

lemma resolveGrid_rounds_down:
  "resolveGrid \<lparr> gridSize = (49, 49, 49), gridOrigin = (0, 0, 0), gridSpacing = (1, 1, 1) \<rparr> 49
   = Inr \<lparr> gridSize = (0, 0, 0), gridOrigin = (0, 0, 0), gridSpacing = (49, 49, 49) \<rparr>"
proof -
  have "axisProduct 49 1 49 = Fin (9007199254740991 / 2 ^ 53)"
    by (simp add: float_eval)
  then show ?thesis by (simp add: resolveGrid_def)
qed

lemma resolveGrid_rounds_up:
  "gridSize (projr (resolveGrid
      \<lparr> gridSize = (197, 197, 197), gridOrigin = (0, 0, 0), gridSpacing = (1, 1, 1) \<rparr>
      (3602879701896397 / 2 ^ 55))) = (1970, 1970, 1970)"
proof -
  have "axisProduct 197 1 (3602879701896397 / 2 ^ 55) = Fin 1970"
    by (simp add: float_eval)
  then show ?thesis by (simp add: resolveGrid_def)
qed

text \<open>
  The same rounding at a negative override, and an overflow: spacing \<open>1e308\<close> at
  override 0.1 gives an infinite quotient, on which \<open>int()\<close> raises.
\<close>

lemma resolveGrid_rounds_toward_zero:
  "resolveGrid \<lparr> gridSize = (49, 49, 49), gridOrigin = (0, 0, 0), gridSpacing = (1, 1, 1) \<rparr>
     (- 49)
   = Inr \<lparr> gridSize = (0, 0, 0), gridOrigin = (0, 0, 0), gridSpacing = (- 49, - 49, - 49) \<rparr>"
proof -
  have "axisProduct 49 1 (- 49) = Fin (- (9007199254740991 / 2 ^ 53))"
    by (simp add: float_eval)
  then show ?thesis by (simp add: resolveGrid_def)
qed

lemma resolveGrid_overflows:
  "resolveGrid
     \<lparr> gridSize = (10, 10, 10), gridOrigin = (0, 0, 0),
       gridSpacing = (156575653125701 * 2 ^ 976, 156575653125701 * 2 ^ 976,
                      156575653125701 * 2 ^ 976) \<rparr>
     (3602879701896397 / 2 ^ 55)
   = Inl OverflowError"
proof -
  have "axisProduct 10 (156575653125701 * 2 ^ 976) (3602879701896397 / 2 ^ 55) = PosInf"
    by (simp add: float_eval)
  then show ?thesis by (simp add: resolveGrid_def)
qed

text \<open>
  C1, as the spec states it, fails: the new size is not the rounded quotient. With size
  7, spacing 1 and override 4 on each axis the quotient is 1.75, which rounds to 2, and
  the code's \<open>int()\<close> gives 1.
\<close>

theorem resolveGrid_round_counterexample:
  "resolveGrid \<lparr> gridSize = (7, 7, 7), gridOrigin = (0, 0, 0), gridSpacing = (1, 1, 1) \<rparr> 4
   \<noteq> Inr \<lparr> gridSize = (round (7 * 1 / 4 :: real), round (7 * 1 / 4 :: real),
                        round (7 * 1 / 4 :: real)),
            gridOrigin = (0, 0, 0), gridSpacing = (4, 4, 4) \<rparr>"
proof -
  have r: "round (7 / 4 :: real) = 2" by (simp add: round_def)
  have p: "axisProduct 7 1 4 = Fin (7 / 4)" by (simp add: float_eval)
  have t: "trunc (7 / 4) = 1" by (simp add: trunc_def)
  show ?thesis by (simp add: resolveGrid_finite [OF p p p] r t)
qed

text \<open>
  C1, amended. For every spacing override \<open>u > 0\<close>: when the three \<open>float64\<close> products
  \<open>size * (spacing / u)\<close> are finite, the resolved grid has on each axis that product
  truncated toward zero (not rounded) as its size, the origin of the reference, and the
  spacing \<open>u\<close> on all three axes; when one of them is not finite, the integer
  conversion raises \<open>OverflowError\<close> or \<open>ValueError\<close>. On an axis that cannot overflow
  the product is finite and within a relative \<open>2^-51\<close> (and an absolute \<open>2^-1021\<close>) of
  the exact quotient \<open>size * spacing / u\<close>; so where the extent \<open>size * spacing\<close> is not
  negative, the new extent \<open>size' * u\<close> exceeds the old one by no more than that
  rounding error and falls short of it by less than one new voxel plus that error.
\<close>

theorem resolveGrid_field_of_view:
  "0 < u \<Longrightarrow>
   (\<forall>p1 p2 p3.
      axisProduct n1 s1 u = Fin p1 \<and> axisProduct n2 s2 u = Fin p2
      \<and> axisProduct n3 s3 u = Fin p3 \<longrightarrow>
      resolveGrid \<lparr> gridSize = (n1, n2, n3), gridOrigin = org,
                    gridSpacing = (s1, s2, s3) \<rparr> u =
        Inr \<lparr> gridSize = (trunc p1, trunc p2, trunc p3), gridOrigin = org,
              gridSpacing = (u, u, u) \<rparr>)
   \<and> (\<not> (isFinite (axisProduct n1 s1 u) \<and> isFinite (axisProduct n2 s2 u)
           \<and> isFinite (axisProduct n3 s3 u)) \<longrightarrow>
        resolveGrid \<lparr> gridSize = (n1, n2, n3), gridOrigin = org,
                      gridSpacing = (s1, s2, s3) \<rparr> u = Inl OverflowError
        \<or> resolveGrid \<lparr> gridSize = (n1, n2, n3), gridOrigin = org,
                        gridSpacing = (s1, s2, s3) \<rparr> u = Inl ValueError)
   \<and> (\<forall>(n, s) \<in> {(n1, s1), (n2, s2), (n3, s3)}.
        axisInRange n s u \<longrightarrow>
        (\<exists>p. axisProduct n s u = Fin p
           \<and> \<bar>p - of_int n * s / u\<bar> \<le> \<bar>of_int n * s / u\<bar> / 2 ^ 51 + 1 / 2 ^ 1021
           \<and> (0 \<le> of_int n * s \<longrightarrow>
                of_int (trunc p) \<le> p \<and> p < of_int (trunc p) + 1
              \<and> of_int (trunc p) * u \<le> of_int n * s * (1 + 1 / 2 ^ 51) + u / 2 ^ 1021
              \<and> of_int n * s * (1 - 1 / 2 ^ 51) - u / 2 ^ 1021
                   < (of_int (trunc p) + 1) * u)))"
proof -
  assume u: "0 < u"
  have a: "\<forall>p1 p2 p3.
      axisProduct n1 s1 u = Fin p1 \<and> axisProduct n2 s2 u = Fin p2
      \<and> axisProduct n3 s3 u = Fin p3 \<longrightarrow>
      resolveGrid \<lparr> gridSize = (n1, n2, n3), gridOrigin = org,
                    gridSpacing = (s1, s2, s3) \<rparr> u =
        Inr \<lparr> gridSize = (trunc p1, trunc p2, trunc p3), gridOrigin = org,
              gridSpacing = (u, u, u) \<rparr>"
    using resolveGrid_finite by blast
  show ?thesis
    using a resolveGrid_not_finite [of n1 s1 u n2 s2 n3 s3 org]
      axis_field_of_view [OF u, of n1 s1] axis_field_of_view [OF u, of n2 s2]
      axis_field_of_view [OF u, of n3 s3]
    by simp
qed

theorem resolveGrid_field_of_view_witness:
  "(0::real) < 2
   \<and> axisProduct 5 1 2 = Fin (5 / 2) \<and> axisProduct 6 1 2 = Fin 3
   \<and> axisProduct 7 1 2 = Fin (7 / 2)
   \<and> resolveGrid \<lparr> gridSize = (5, 6, 7), gridOrigin = (0, 0, 0), gridSpacing = (1, 1, 1) \<rparr> 2 =
       Inr \<lparr> gridSize = (2, 3, 3), gridOrigin = (0, 0, 0), gridSpacing = (2, 2, 2) \<rparr>
   \<and> axisInRange 5 1 2
   \<and> (0 :: real) \<le> of_int 5 * 1
   \<and> (\<exists>p. axisProduct 5 1 2 = Fin p
         \<and> \<bar>p - of_int 5 * 1 / 2\<bar> \<le> \<bar>of_int 5 * 1 / 2\<bar> / 2 ^ 51 + 1 / 2 ^ 1021
         \<and> of_int (trunc p) \<le> p \<and> p < of_int (trunc p) + 1
         \<and> of_int (trunc p) * 2 \<le> (of_int 5 * 1 * (1 + 1 / 2 ^ 51) + 2 / 2 ^ 1021 :: real)
         \<and> (of_int 5 * 1 * (1 - 1 / 2 ^ 51) - 2 / 2 ^ 1021 :: real) < (of_int (trunc p) + 1) * 2)"
proof -
  have u: "(0::real) < 2" by simp
  have p: "axisProduct 5 1 2 = Fin (5 / 2)" "axisProduct 6 1 2 = Fin 3"
    "axisProduct 7 1 2 = Fin (7 / 2)"
    by (simp_all add: float_eval)
  have r: "axisInRange 5 1 2" by (simp add: axisInRange_def)
  have ns: "(0 :: real) \<le> of_int 5 * 1" by simp
  have t: "trunc (5 / 2) = 2" "trunc 3 = 3" "trunc (7 / 2) = 3" by (simp_all add: trunc_def)
  note inst = resolveGrid_field_of_view
          [OF u, where ?n1.0 = 5 and ?n2.0 = 6 and ?n3.0 = 7 and org = "(0, 0, 0)"
             and ?s1.0 = 1 and ?s2.0 = 1 and ?s3.0 = 1]
  have "resolveGrid \<lparr> gridSize = (5, 6, 7), gridOrigin = (0, 0, 0),
                         gridSpacing = (1, 1, 1) \<rparr> 2 =
       Inr \<lparr> gridSize = (trunc (5 / 2), trunc 3, trunc (7 / 2)), gridOrigin = (0, 0, 0),
             gridSpacing = (2, 2, 2) \<rparr>"
    using inst p by blast
  then have g: "resolveGrid \<lparr> gridSize = (5, 6, 7), gridOrigin = (0, 0, 0),
                         gridSpacing = (1, 1, 1) \<rparr> 2 =
       Inr \<lparr> gridSize = (2, 3, 3), gridOrigin = (0, 0, 0), gridSpacing = (2, 2, 2) \<rparr>"
    by (simp only: t)
  have f: "\<exists>p. axisProduct 5 1 2 = Fin p
         \<and> \<bar>p - of_int 5 * 1 / 2\<bar> \<le> \<bar>of_int 5 * 1 / 2\<bar> / 2 ^ 51 + 1 / 2 ^ 1021
         \<and> of_int (trunc p) \<le> p \<and> p < of_int (trunc p) + 1
         \<and> of_int (trunc p) * 2 \<le> (of_int 5 * 1 * (1 + 1 / 2 ^ 51) + 2 / 2 ^ 1021 :: real)
         \<and> (of_int 5 * 1 * (1 - 1 / 2 ^ 51) - 2 / 2 ^ 1021 :: real) < (of_int (trunc p) + 1) * 2"
    using inst r ns by blast
  show ?thesis using u p g r ns f by blast
qed

text \<open>
  C9, as the spec states it, fails: a negative override is not rejected. With override
  \<open>-2\<close> the computation returns a grid, of negative size and negative spacing.
\<close>

theorem resolveGrid_negative_counterexample:
  "resolveGrid \<lparr> gridSize = (4, 4, 4), gridOrigin = (0, 0, 0), gridSpacing = (1, 1, 1) \<rparr> (- 2)
   = Inr \<lparr> gridSize = (- 2, - 2, - 2), gridOrigin = (0, 0, 0),
           gridSpacing = (- 2, - 2, - 2) \<rparr>"
proof -
  have p: "axisProduct 4 1 (- 2) = Fin (- 2)" by (simp add: float_eval)
  show ?thesis by (simp add: resolveGrid_finite [OF p p p] trunc_def)
qed

text \<open>
  C9, amended. The code has no guard on the override, and the only errors the grid
  computation can raise are the \<open>OverflowError\<close> and \<open>ValueError\<close> of \<open>int()\<close>. A
  negative override \<open>u\<close> is accepted whenever the three \<open>float64\<close> products
  \<open>size * (spacing / u)\<close> are finite, as they are on axes that cannot overflow: the
  result is the grid of the truncated products, the reference origin and the spacing
  \<open>u\<close>. An override of zero makes the products infinite or NaN, and the integer
  conversion raises.
\<close>

theorem resolveGrid_nonpositive:
  "(u < 0 \<longrightarrow>
      (\<forall>p1 p2 p3.
         axisProduct n1 s1 u = Fin p1 \<and> axisProduct n2 s2 u = Fin p2
         \<and> axisProduct n3 s3 u = Fin p3 \<longrightarrow>
         resolveGrid \<lparr> gridSize = (n1, n2, n3), gridOrigin = org,
                       gridSpacing = (s1, s2, s3) \<rparr> u =
           Inr \<lparr> gridSize = (trunc p1, trunc p2, trunc p3), gridOrigin = org,
                 gridSpacing = (u, u, u) \<rparr>)
    \<and> (axisInRange n1 s1 u \<and> axisInRange n2 s2 u \<and> axisInRange n3 s3 u \<longrightarrow>
         (\<exists>p1 p2 p3.
            axisProduct n1 s1 u = Fin p1 \<and> axisProduct n2 s2 u = Fin p2
            \<and> axisProduct n3 s3 u = Fin p3)))
   \<and> (resolveGrid g 0 = Inl OverflowError \<or> resolveGrid g 0 = Inl ValueError)
   \<and> (resolveGrid g v = Inl e \<longrightarrow> e = OverflowError \<or> e = ValueError)"
proof -
  have a: "\<forall>p1 p2 p3.
         axisProduct n1 s1 u = Fin p1 \<and> axisProduct n2 s2 u = Fin p2
         \<and> axisProduct n3 s3 u = Fin p3 \<longrightarrow>
         resolveGrid \<lparr> gridSize = (n1, n2, n3), gridOrigin = org,
                       gridSpacing = (s1, s2, s3) \<rparr> u =
           Inr \<lparr> gridSize = (trunc p1, trunc p2, trunc p3), gridOrigin = org,
                 gridSpacing = (u, u, u) \<rparr>"
    using resolveGrid_finite by blast
  have b: "\<exists>p. axisProduct n s u = Fin p" if "u < 0" "axisInRange n s u" for n s
  proof -
    have "u \<noteq> 0" using that(1) by simp
    then show ?thesis using axis_product [of u n s] that(2) unfolding axisInRange_def by blast
  qed
  show ?thesis
    using a b [of n1 s1] b [of n2 s2] b [of n3 s3] resolveGrid_zero [of g]
      resolveGrid_error [of g v e]
    by blast
qed

theorem resolveGrid_nonpositive_witness:
  "(- 4 :: real) < 0
   \<and> axisProduct 8 1 (- 4) = Fin (- 2)
   \<and> axisInRange 8 1 (- 4)
   \<and> resolveGrid \<lparr> gridSize = (8, 8, 8), gridOrigin = (0, 0, 0), gridSpacing = (1, 1, 1) \<rparr> (- 4) =
       Inr \<lparr> gridSize = (- 2, - 2, - 2), gridOrigin = (0, 0, 0),
             gridSpacing = (- 4, - 4, - 4) \<rparr>
   \<and> resolveGrid \<lparr> gridSize = (8, 8, 8), gridOrigin = (0, 0, 0), gridSpacing = (1, 1, 1) \<rparr> 0 =
       Inl OverflowError"
proof -
  have u: "(- 4 :: real) < 0" by simp
  have p: "axisProduct 8 1 (- 4) = Fin (- 2)" by (simp add: float_eval)
  have r: "axisInRange 8 1 (- 4)" by (simp add: axisInRange_def)
  have t: "trunc (- 2) = - 2" by (simp add: trunc_def)
  have z: "resolveGrid \<lparr> gridSize = (8, 8, 8), gridOrigin = (0, 0, 0),
                         gridSpacing = (1, 1, 1) \<rparr> 0 = Inl OverflowError"
    by (simp add: resolveGrid_def float_eval)
  have g: "resolveGrid \<lparr> gridSize = (8, 8, 8), gridOrigin = (0, 0, 0),
                         gridSpacing = (1, 1, 1) \<rparr> (- 4) =
       Inr \<lparr> gridSize = (- 2, - 2, - 2), gridOrigin = (0, 0, 0),
             gridSpacing = (- 4, - 4, - 4) \<rparr>"
    using resolveGrid_nonpositive
            [where u = "- 4" and ?n1.0 = 8 and ?n2.0 = 8 and ?n3.0 = 8 and org = "(0, 0, 0)"
               and ?s1.0 = 1 and ?s2.0 = 1 and ?s3.0 = 1]
          u p
    by (simp add: t)
  show ?thesis using u p r g z by simp
qed

section \<open>The correction cycle\<close>

lemma exampleScene_grid:
  "resolveGrid (gridDefinition exampleScene (InputNode exampleScene)) 2 =
     Inr \<lparr> gridSize = (5, 6, 7), gridOrigin = (- 5, - 6, - 7), gridSpacing = (2, 2, 2) \<rparr>"
proof -
  have p: "axisProduct 10 1 2 = Fin 5" "axisProduct 12 1 2 = Fin 6" "axisProduct 14 1 2 = Fin 7"
    by (simp_all add: float_eval)
  have t: "trunc 5 = 5" "trunc 6 = 6" "trunc 7 = 7" by (simp_all add: trunc_def)
  have g: "gridDefinition exampleScene (InputNode exampleScene) =
     \<lparr> gridSize = (10, 12, 14), gridOrigin = (- 5, - 6, - 7), gridSpacing = (1, 1, 1) \<rparr>"
    by (simp add: exampleScene_def)
  show ?thesis
    unfolding g using resolveGrid_finite [OF p, of "(- 5, - 6, - 7)"] by (simp add: t)
qed

lemma emptyScene_grid:
  "resolveGrid (gridDefinition emptyScene (InputNode emptyScene)) 2 =
     Inr \<lparr> gridSize = (5, 6, 7), gridOrigin = (- 5, - 6, - 7), gridSpacing = (2, 2, 2) \<rparr>"
  using exampleScene_grid by (simp add: emptyScene_def)

lemma run_empty_identity:
  "GetNumberOfControlPoints s src = 0 \<Longrightarrow> volumes s refVol = Some g \<Longrightarrow>
   run refVol out src tgt radius stiff s =
     Inr (None, s\<lparr> gridTransforms := (gridTransforms s)
                     (out \<mapsto> \<lparr> transformGrid = g, displacement = (\<lambda>v. (0, 0, 0)) \<rparr>) \<rparr>)"
  by (simp add: run_def emptyGridTransform_def)

lemma run_nonempty:
  "GetNumberOfControlPoints s src \<noteq> 0 \<Longrightarrow>
   run refVol out src tgt radius stiff s =
     Inr (Some (nextID s),
          s\<lparr> sceneNodes := sceneNodes s @ [nextID s], nextID := Suc (nextID s),
             cliRuns := cliRuns s @
               [\<lparr> referenceVolume = refVol, fixedFiducials = tgt, movingFiducials = src,
                  outputDisplacementField = out, RBFRadius = radius, stiffness = stiff \<rparr>] \<rparr>)"
  by (simp add: run_def computeWarp_def slicer_cli_run_def AddNewNode_def)

lemma onStatusModifiedEvent_not_completed:
  "status \<noteq> ''Completed'' \<Longrightarrow>
   onStatusModifiedEvent (Some (c, status)) out vis aux s = s"
  by (simp add: onStatusModifiedEvent_def)

lemma commit_nonempty:
  assumes src: "GetNumberOfControlPoints s (SourceFiducial s) \<noteq> 0"
    and g: "resolveGrid (gridDefinition s (InputNode s)) u = Inr g"
  shows "\<exists>s1. onCalculateButton u stiff s = Inr s1
    \<and> cliRuns s1 = cliRuns s @
         [\<lparr> referenceVolume = nextID s, fixedFiducials = TargetFiducial s,
            movingFiducials = SourceFiducial s,
            outputDisplacementField = OutputGridTransform s,
            RBFRadius = radiusString (controlPoints s (TargetFiducial s)),
            stiffness = stiff \<rparr>]
    \<and> statusObserver s1 =
         Some (Suc (Suc (Suc (nextID s))), OutputGridTransform s,
               [Suc (Suc (nextID s)), Suc (nextID s)], nextID s)
    \<and> sceneNodes s1 = sceneNodes s @ [nextID s, Suc (nextID s), Suc (Suc (nextID s)),
                                        Suc (Suc (Suc (nextID s)))]
    \<and> observedTransform s1 (InputNode s) = None
    \<and> GetParameter (parameters s1) ''Running'' = ''true''
    \<and> controlPoints s1 = controlPoints s
    \<and> volumes s1 (nextID s) = Some g"
  using src
  by (simp add: onCalculateButton_def g emptyVolume_def AddNewNode_def previewWarp_def
        SetAndObserveTransformNodeID_def run_nonempty GetNumberOfControlPoints_def
        GetParameter_def SetParameter_def Let_def)

lemma commit_empty:
  assumes src: "GetNumberOfControlPoints s (SourceFiducial s) = 0"
    and g: "resolveGrid (gridDefinition s (InputNode s)) u = Inr g"
  shows "\<exists>s1. onCalculateButton u stiff s = Inr s1
    \<and> gridTransforms s1 (OutputGridTransform s) =
         Some \<lparr> transformGrid = g, displacement = (\<lambda>v. (0, 0, 0)) \<rparr>
    \<and> cliRuns s1 = cliRuns s
    \<and> statusObserver s1 = statusObserver s
    \<and> observedTransform s1 (InputNode s) = Some (OutputGridTransform s)
    \<and> GetParameter (parameters s1) ''Running'' = ''false''"
proof -
  let ?s1 = "snd (emptyVolume g s)"
  have v: "volumes ?s1 (nextID s) = Some g"
    by (simp add: emptyVolume_def AddNewNode_def)
  show ?thesis
    using src
    by (simp add: onCalculateButton_def g emptyVolume_def AddNewNode_def previewWarp_def
          SetAndObserveTransformNodeID_def run_def emptyGridTransform_def
          onStatusModifiedEvent_def RemoveNode_def
          GetNumberOfControlPoints_def GetParameter_def SetParameter_def Let_def)
qed

text \<open>
  C2. When the source fiducial has no control points, \<open>run\<close> returns no solver node
  and leaves the scene as it was except for the output node, which now holds a grid
  transform over the reference volume's grid with zero displacement at every voxel; and
  a whole commit in that situation returns with that field over the resolved grid on
  the output node, no solver invocation made, no observer registered, the output
  transform attached to the input node and Running reset to false.
\<close>

theorem empty_commit_identity:
  "(GetNumberOfControlPoints s src = 0 \<and> volumes s refVol = Some g \<longrightarrow>
      run refVol out src tgt radius stiff s =
        Inr (None, s\<lparr> gridTransforms := (gridTransforms s)
                        (out \<mapsto> \<lparr> transformGrid = g, displacement = (\<lambda>v. (0, 0, 0)) \<rparr>) \<rparr>))
   \<and> (GetNumberOfControlPoints s (SourceFiducial s) = 0
        \<and> resolveGrid (gridDefinition s (InputNode s)) u = Inr g' \<longrightarrow>
      (\<exists>s1. onCalculateButton u stiff s = Inr s1
         \<and> gridTransforms s1 (OutputGridTransform s) =
              Some \<lparr> transformGrid = g', displacement = (\<lambda>v. (0, 0, 0)) \<rparr>
         \<and> cliRuns s1 = cliRuns s
         \<and> statusObserver s1 = statusObserver s
         \<and> observedTransform s1 (InputNode s) = Some (OutputGridTransform s)
         \<and> GetParameter (parameters s1) ''Running'' = ''false''))"
  using run_empty_identity [of s src refVol g out tgt radius stiff]
        commit_empty [of s u g' stiff]
  by blast

theorem empty_commit_identity_witness:
  "GetNumberOfControlPoints emptyScene 1 = 0
   \<and> volumes emptyScene 4 =
        Some \<lparr> gridSize = (10, 12, 14), gridOrigin = (- 5, - 6, - 7), gridSpacing = (1, 1, 1) \<rparr>
   \<and> run 4 3 1 2 [] (1 / 10) emptyScene =
        Inr (None, emptyScene\<lparr> gridTransforms := (gridTransforms emptyScene)
               (3 \<mapsto> \<lparr> transformGrid =
                          \<lparr> gridSize = (10, 12, 14), gridOrigin = (- 5, - 6, - 7),
                            gridSpacing = (1, 1, 1) \<rparr>,
                        displacement = (\<lambda>v. (0, 0, 0)) \<rparr>) \<rparr>)
   \<and> resolveGrid (gridDefinition emptyScene (InputNode emptyScene)) 2 =
        Inr \<lparr> gridSize = (5, 6, 7), gridOrigin = (- 5, - 6, - 7), gridSpacing = (2, 2, 2) \<rparr>
   \<and> (\<exists>s1. onCalculateButton 2 (1 / 10) emptyScene = Inr s1
         \<and> gridTransforms s1 3 =
              Some \<lparr> transformGrid =
                       \<lparr> gridSize = (5, 6, 7), gridOrigin = (- 5, - 6, - 7),
                         gridSpacing = (2, 2, 2) \<rparr>,
                     displacement = (\<lambda>v. (0, 0, 0)) \<rparr>
         \<and> cliRuns s1 = [])"
proof -
  have a: "GetNumberOfControlPoints emptyScene 1 = 0"
    by (simp add: emptyScene_def GetNumberOfControlPoints_def)
  have b: "volumes emptyScene 4 =
        Some \<lparr> gridSize = (10, 12, 14), gridOrigin = (- 5, - 6, - 7), gridSpacing = (1, 1, 1) \<rparr>"
    by (simp add: emptyScene_def exampleScene_def)
  have c: "resolveGrid (gridDefinition emptyScene (InputNode emptyScene)) 2 =
        Inr \<lparr> gridSize = (5, 6, 7), gridOrigin = (- 5, - 6, - 7), gridSpacing = (2, 2, 2) \<rparr>"
    by (rule emptyScene_grid)
  have d: "SourceFiducial emptyScene = 1" "OutputGridTransform emptyScene = 3"
    "cliRuns emptyScene = []"
    by (simp_all add: emptyScene_def exampleScene_def)
  show ?thesis
    using a b c d
      empty_commit_identity
        [where s = emptyScene and src = 1 and refVol = 4 and out = 3 and tgt = 2
           and radius = "[]" and stiff = "1 / 10" and u = 2
           and g = "\<lparr> gridSize = (10, 12, 14), gridOrigin = (- 5, - 6, - 7),
                       gridSpacing = (1, 1, 1) \<rparr>"
           and g' = "\<lparr> gridSize = (5, 6, 7), gridOrigin = (- 5, - 6, - 7),
                        gridSpacing = (2, 2, 2) \<rparr>"]
    by auto
qed

text \<open>
  C3, amended. When the solver's node reports any status other than \<open>Completed\<close>, the
  handler returns without changing anything: after a commit with control points, the
  preview nodes and the auxiliary volume are still in the scene, the input node has no
  transform attached (the commit detached it before starting the solver), Running is
  still true, and the control points are the ones the commit started from.
\<close>

theorem failed_solver_leaves_commit_state:
  "GetNumberOfControlPoints s (SourceFiducial s) \<noteq> 0 \<Longrightarrow>
   resolveGrid (gridDefinition s (InputNode s)) u = Inr g \<Longrightarrow>
   status \<noteq> ''Completed'' \<Longrightarrow>
   \<exists>s1 cliNode vis aux.
      onCalculateButton u stiff s = Inr s1
    \<and> statusObserver s1 = Some (cliNode, OutputGridTransform s, vis, aux)
    \<and> statusModified status s1 = s1
    \<and> onStatusModifiedEvent (Some (cliNode, status)) (OutputGridTransform s) vis aux s1 = s1
    \<and> vis \<noteq> [] \<and> set vis \<subseteq> set (sceneNodes s1) \<and> aux \<in> set (sceneNodes s1)
    \<and> observedTransform s1 (InputNode s) = None
    \<and> GetParameter (parameters s1) ''Running'' = ''true''
    \<and> controlPoints s1 = controlPoints s"
proof -
  assume src: "GetNumberOfControlPoints s (SourceFiducial s) \<noteq> 0"
    and g: "resolveGrid (gridDefinition s (InputNode s)) u = Inr g"
    and st: "status \<noteq> ''Completed''"
  obtain s1 where s1: "onCalculateButton u stiff s = Inr s1"
    "statusObserver s1 =
         Some (Suc (Suc (Suc (nextID s))), OutputGridTransform s,
               [Suc (Suc (nextID s)), Suc (nextID s)], nextID s)"
    "sceneNodes s1 = sceneNodes s @ [nextID s, Suc (nextID s), Suc (Suc (nextID s)),
                                        Suc (Suc (Suc (nextID s)))]"
    "observedTransform s1 (InputNode s) = None"
    "GetParameter (parameters s1) ''Running'' = ''true''"
    "controlPoints s1 = controlPoints s"
    using commit_nonempty [OF src g, of stiff] by blast
  have ev: "onStatusModifiedEvent (Some (Suc (Suc (Suc (nextID s))), status))
              (OutputGridTransform s) [Suc (Suc (nextID s)), Suc (nextID s)] (nextID s) s1 = s1"
    using st by (rule onStatusModifiedEvent_not_completed)
  have sm: "statusModified status s1 = s1"
    by (simp add: statusModified_def s1(2) ev)
  show ?thesis
    using s1 ev sm by simp
qed

theorem failed_solver_leaves_commit_state_witness:
  "GetNumberOfControlPoints exampleScene (SourceFiducial exampleScene) \<noteq> 0
   \<and> resolveGrid (gridDefinition exampleScene (InputNode exampleScene)) 2 =
       Inr \<lparr> gridSize = (5, 6, 7), gridOrigin = (- 5, - 6, - 7), gridSpacing = (2, 2, 2) \<rparr>
   \<and> ''Cancelled'' \<noteq> ''Completed''
   \<and> (\<exists>s1 cliNode vis aux.
          onCalculateButton 2 (1 / 10) exampleScene = Inr s1
        \<and> statusObserver s1 = Some (cliNode, 3, vis, aux)
        \<and> statusModified ''Cancelled'' s1 = s1
        \<and> aux \<in> set (sceneNodes s1)
        \<and> observedTransform s1 0 = None
        \<and> GetParameter (parameters s1) ''Running'' = ''true'')"
proof -
  have src: "GetNumberOfControlPoints exampleScene (SourceFiducial exampleScene) \<noteq> 0"
    by (simp add: exampleScene_def GetNumberOfControlPoints_def)
  have st: "''Cancelled'' \<noteq> ''Completed''" by simp
  have e: "OutputGridTransform exampleScene = 3" "InputNode exampleScene = 0"
    by (simp_all add: exampleScene_def)
  have c: "\<exists>s1 cliNode vis aux.
          onCalculateButton 2 (1 / 10) exampleScene = Inr s1
        \<and> statusObserver s1 = Some (cliNode, 3, vis, aux)
        \<and> statusModified ''Cancelled'' s1 = s1
        \<and> aux \<in> set (sceneNodes s1)
        \<and> observedTransform s1 0 = None
        \<and> GetParameter (parameters s1) ''Running'' = ''true''"
    using failed_solver_leaves_commit_state [OF src exampleScene_grid st, of "1 / 10"]
    by (simp only: e) blast
  show ?thesis using src exampleScene_grid st c by blast
qed

text \<open>
  C3, as the spec states it, fails. In the example scene the input node observes the
  output transform 3; after a commit whose solver ends \<open>Cancelled\<close> the input node
  observes nothing, and the auxiliary volume 5 and the preview nodes 6 and 7 are still
  in the scene.
\<close>

theorem failed_solver_counterexample:
  "attachedTransform (Inr exampleScene) = Some 3
   \<and> \<not> isl (commitThenStatus 2 (1 / 10) ''Cancelled'' exampleScene)
   \<and> attachedTransform (commitThenStatus 2 (1 / 10) ''Cancelled'' exampleScene) = None
   \<and> nodesOf (commitThenStatus 2 (1 / 10) ''Cancelled'' exampleScene)
        = [0, 1, 2, 3, 4, 5, 6, 7, 8]"
proof -
  have src: "GetNumberOfControlPoints exampleScene (SourceFiducial exampleScene) \<noteq> 0"
    by (simp add: exampleScene_def GetNumberOfControlPoints_def)
  have g: "resolveGrid (gridDefinition exampleScene (InputNode exampleScene)) 2 =
        Inr \<lparr> gridSize = (5, 6, 7), gridOrigin = (- 5, - 6, - 7), gridSpacing = (2, 2, 2) \<rparr>"
    by (rule exampleScene_grid)
  obtain s1 where s1: "onCalculateButton 2 (1 / 10) exampleScene = Inr s1"
    "statusObserver s1 =
         Some (Suc (Suc (Suc (nextID exampleScene))), OutputGridTransform exampleScene,
               [Suc (Suc (nextID exampleScene)), Suc (nextID exampleScene)], nextID exampleScene)"
    "sceneNodes s1 = sceneNodes exampleScene @ [nextID exampleScene, Suc (nextID exampleScene),
        Suc (Suc (nextID exampleScene)), Suc (Suc (Suc (nextID exampleScene)))]"
    "observedTransform s1 (InputNode exampleScene) = None"
    using commit_nonempty [OF src g, of "1 / 10"] by blast
  have i: "InputNode s1 = InputNode exampleScene"
    using s1(1) src
    by (auto simp add: onCalculateButton_def g emptyVolume_def AddNewNode_def previewWarp_def
          SetAndObserveTransformNodeID_def run_nonempty GetNumberOfControlPoints_def
          GetParameter_def SetParameter_def Let_def)
  have sm: "statusModified ''Cancelled'' s1 = s1"
    by (simp add: statusModified_def s1(2) onStatusModifiedEvent_not_completed)
  have e: "sceneNodes exampleScene = [0, 1, 2, 3, 4]" "nextID exampleScene = 5"
    "observedTransform exampleScene (InputNode exampleScene) = Some 3"
    by (simp_all add: exampleScene_def)
  have c1: "attachedTransform (Inr exampleScene) = Some 3"
    using e by (simp add: attachedTransform_def)
  have c2: "commitThenStatus 2 (1 / 10) ''Cancelled'' exampleScene = Inr s1"
    by (simp add: commitThenStatus_def s1(1) sm)
  have c3: "attachedTransform (Inr s1) = None"
    using s1(4) i by (simp add: attachedTransform_def)
  have c4: "nodesOf (Inr s1) = [0, 1, 2, 3, 4, 5, 6, 7, 8]"
    using s1(3) e by (simp add: nodesOf_def)
  show ?thesis
    using c1 c3 c4 by (simp add: c2)
qed

text \<open>
  C8. A commit whose source fiducial has control points makes exactly one solver
  invocation, and its radius parameter is the comma-joined string of the descriptions
  of the selected control points of the target fiducial, in order; points that are not
  selected contribute nothing.
\<close>

theorem solver_invocation_radius:
  "GetNumberOfControlPoints s (SourceFiducial s) \<noteq> 0 \<Longrightarrow>
   resolveGrid (gridDefinition s (InputNode s)) u = Inr g \<Longrightarrow>
   \<exists>s1. onCalculateButton u stiff s = Inr s1
     \<and> cliRuns s1 = cliRuns s @
         [\<lparr> referenceVolume = nextID s, fixedFiducials = TargetFiducial s,
            movingFiducials = SourceFiducial s,
            outputDisplacementField = OutputGridTransform s,
            RBFRadius = str_join '','' (map description
                          (filter selected (controlPoints s (TargetFiducial s)))),
            stiffness = stiff \<rparr>]"
proof -
  assume src: "GetNumberOfControlPoints s (SourceFiducial s) \<noteq> 0"
    and g: "resolveGrid (gridDefinition s (InputNode s)) u = Inr g"
  show ?thesis
    using commit_nonempty [OF src g, of stiff] by (auto simp add: radiusString_def)
qed

theorem solver_invocation_radius_witness:
  "GetNumberOfControlPoints exampleScene (SourceFiducial exampleScene) \<noteq> 0
   \<and> resolveGrid (gridDefinition exampleScene (InputNode exampleScene)) 2 =
       Inr \<lparr> gridSize = (5, 6, 7), gridOrigin = (- 5, - 6, - 7), gridSpacing = (2, 2, 2) \<rparr>
   \<and> (\<exists>s1. onCalculateButton 2 (1 / 10) exampleScene = Inr s1
        \<and> cliRuns s1 =
            [\<lparr> referenceVolume = 5, fixedFiducials = 2, movingFiducials = 1,
               outputDisplacementField = 3, RBFRadius = ''30,25,40'',
               stiffness = 1 / 10 \<rparr>])"
proof -
  have src: "GetNumberOfControlPoints exampleScene (SourceFiducial exampleScene) \<noteq> 0"
    by (simp add: exampleScene_def GetNumberOfControlPoints_def)
  have e: "nextID exampleScene = 5" "TargetFiducial exampleScene = 2"
    "SourceFiducial exampleScene = 1" "OutputGridTransform exampleScene = 3"
    "cliRuns exampleScene = []"
    "str_join '','' (map description (filter selected (controlPoints exampleScene 2)))
       = ''30,25,40''"
    by (simp_all add: exampleScene_def)
  have c: "\<exists>s1. onCalculateButton 2 (1 / 10) exampleScene = Inr s1
        \<and> cliRuns s1 =
            [\<lparr> referenceVolume = 5, fixedFiducials = 2, movingFiducials = 1,
               outputDisplacementField = 3, RBFRadius = ''30,25,40'',
               stiffness = 1 / 10 \<rparr>]"
    using solver_invocation_radius [OF src exampleScene_grid, of "1 / 10"]
    by (simp only: e append_Nil)
  show ?thesis using src exampleScene_grid c by blast
qed

section \<open>Approval of a legacy subject\<close>

lemma not_endswith_slash: "sp \<noteq> [] \<Longrightarrow> last sp \<noteq> CHR ''/'' \<Longrightarrow> \<not> endswith sp ''/''"
  by (auto simp add: endswith_def suffix_def)

lemma legacy_file_path:
  "sp \<noteq> [] \<Longrightarrow> last sp \<noteq> CHR ''/'' \<Longrightarrow>
   os_path_join sp [''ea_coreg_approved.mat''] = sp @ ''/ea_coreg_approved.mat''"
  by (simp add: os_path_join_def join2_def startswith_def not_endswith_slash)

lemma legacy_file_not_json: "\<not> endswith (sp @ ''/ea_coreg_approved.mat'') ''json''"
  by (simp add: endswith_def suffix_to_prefix)

lemma legacy_file_dirname:
  assumes "sp \<noteq> []" "last sp \<noteq> CHR ''/''"
  shows "os_path_dirname (sp @ ''/ea_coreg_approved.mat'') = sp"
proof -
  obtain ys c where sp: "sp = ys @ [c]" using assms(1) by (metis rev_exhaust)
  have c: "c \<noteq> CHR ''/''" using assms(2) sp by simp
  show ?thesis
    using c by (simp add: os_path_dirname_def split_head_def sp)
qed

text \<open>
  C6. For a legacy subject (a directory without a \<open>preprocessing\<close> subdirectory, its
  path written without a trailing slash) that has no \<open>ea_coreg_approved.mat\<close>, saving
  the approval succeeds and changes the file system in one place only: it creates that
  file, holding the single key \<open>glanat\<close> with the approval sentinel \<open>[2]\<close>.
\<close>

theorem setApproved_creates_sentinel:
  assumes "sp \<noteq> []" and "last sp \<noteq> CHR ''/''"
    and "os_path_isdir fs sp"
    and "\<not> os_path_isdir fs (os_path_join sp [''preprocessing''])"
    and "\<not> os_path_isfile fs (os_path_join sp [''ea_coreg_approved.mat''])"
  shows "saveApprovedData loads dumps sp fs =
           (Inr (), fs\<lparr> files := (files fs)
                      (os_path_join sp [''ea_coreg_approved.mat'']
                         \<mapsto> MatHDF5 [(''glanat'', Array1 [2])]) \<rparr>)"
proof -
  let ?f = "sp @ ''/ea_coreg_approved.mat''"
  have p: "os_path_join sp [''ea_coreg_approved.mat''] = ?f"
    using assms(1,2) by (rule legacy_file_path)
  have m: "getNormalizationMethod (LeadFileManager_init fs sp) = ?f"
    using assms(4) p by (simp add: getNormalizationMethod_def LeadFileManager_init_def)
  have absent: "files fs ?f = None"
    using assms(5) p by (simp add: os_path_isfile_def)
  have d: "os_path_dirname ?f = sp"
    using assms(1,2) by (rule legacy_file_dirname)
  have w: "hdf5storage_write [(''glanat'', Array1 [2])] ''ea_coreg_approved.mat''
             (fs\<lparr> cwd := sp \<rparr>) =
           (Inr (), fs\<lparr> cwd := sp, files := (files fs)(?f \<mapsto> MatHDF5 [(''glanat'', Array1 [2])]) \<rparr>)"
    by (simp add: hdf5storage_write_def p absent)
  have l: "saveApprovedDataLegacy ?f fs =
             (Inr (), fs\<lparr> files := (files fs)(?f \<mapsto> MatHDF5 [(''glanat'', Array1 [2])]) \<rparr>)"
    using assms(3) by (simp add: saveApprovedDataLegacy_def absent d w)
  show ?thesis
    by (simp add: saveApprovedData_def m legacy_file_not_json l p)
qed

theorem setApproved_creates_sentinel_witness:
  "''/data/patient7'' \<noteq> [] \<and> last ''/data/patient7'' \<noteq> CHR ''/''
   \<and> os_path_isdir legacySubject ''/data/patient7''
   \<and> \<not> os_path_isdir legacySubject (os_path_join ''/data/patient7'' [''preprocessing''])
   \<and> \<not> os_path_isfile legacySubject (os_path_join ''/data/patient7'' [''ea_coreg_approved.mat''])
   \<and> saveApprovedData (\<lambda>doc. None) (\<lambda>v. []) ''/data/patient7'' legacySubject =
         (Inr (), legacySubject\<lparr> files := (files legacySubject)
                    (''/data/patient7/ea_coreg_approved.mat''
                       \<mapsto> MatHDF5 [(''glanat'', Array1 [2])]) \<rparr>)"
proof -
  have a: "''/data/patient7'' \<noteq> []" "last ''/data/patient7'' \<noteq> CHR ''/''" by simp_all
  have b: "os_path_isdir legacySubject ''/data/patient7''" by code_simp
  have c: "\<not> os_path_isdir legacySubject (os_path_join ''/data/patient7'' [''preprocessing''])"
    by code_simp
  have d: "\<not> os_path_isfile legacySubject
               (os_path_join ''/data/patient7'' [''ea_coreg_approved.mat''])"
    by code_simp
  have p: "os_path_join ''/data/patient7'' [''ea_coreg_approved.mat'']
             = ''/data/patient7/ea_coreg_approved.mat''"
    by code_simp
  show ?thesis
    using setApproved_creates_sentinel [OF a b c d, of "\<lambda>doc. None" "\<lambda>v. []"] a b c d
    by (simp only: p) simp
qed

section \<open>Approval of a BIDS subject\<close>

text \<open>
  Whatever the file holds, \<open>saveApprovedDataJSON\<close> on an existing file raises and
  leaves the file as it was: the stream opened with \<open>a+\<close> is read from its end.
\<close>

lemma saveApprovedDataJSON_existing:
  "os_path_isfile fs f \<Longrightarrow> saveApprovedDataJSON loads dumps f fs = (Inl JSONDecodeError, fs)"
  by (simp add: saveApprovedDataJSON_def json_loads_def Let_def)

text \<open>
  C5 fails on the code. The BIDS subject \<open>/data/sub-01\<close> has a metadata file holding a
  valid JSON object; saving the approval raises \<open>JSONDecodeError\<close> and the file system,
  the file's \<open>approval\<close> field included, is what it was.
\<close>

theorem saveApprovedData_json_raises:
  \<open>file_text bidsSubject ''/data/sub-01/normalization/log/sub-01_desc-normmethod.json''
     = ''{"method": "ANTs (Avants 2008)", "approval": 0}''
   \<and> (\<forall>loads dumps.
         saveApprovedData loads dumps ''/data/sub-01'' bidsSubject
           = (Inl JSONDecodeError, bidsSubject))\<close>
proof -
  have t: \<open>file_text bidsSubject ''/data/sub-01/normalization/log/sub-01_desc-normmethod.json''
     = ''{"method": "ANTs (Avants 2008)", "approval": 0}''\<close>
    by code_simp
  have m: "getNormalizationMethod (LeadFileManager_init bidsSubject ''/data/sub-01'')
             = ''/data/sub-01/normalization/log/sub-01_desc-normmethod.json''"
    by code_simp
  have j: "endswith ''/data/sub-01/normalization/log/sub-01_desc-normmethod.json'' ''json''"
    by code_simp
  have f: "os_path_isfile bidsSubject
             ''/data/sub-01/normalization/log/sub-01_desc-normmethod.json''"
    by code_simp
  show ?thesis
    by (simp add: t saveApprovedData_def m j saveApprovedDataJSON_existing [OF f])
qed

section \<open>Migration of composite transforms\<close>

lemma updateOne_absent:
  "\<not> os_path_isfile fs (os_path_join directory [transform @ ''.h5'']) \<Longrightarrow>
   updateOne directory tool transform reference fs = (Inr (), fs)"
  by (simp add: updateOne_def)

text \<open>
  C4 fails on the code. The BIDS subject \<open>/data/sub-01\<close> has the \<open>.h5\<close> sibling of
  both warp fields; loading its transform runs no command and removes no file. The
  check inside \<open>updateTranform\<close> looks for the warp field's own name with \<open>.h5\<close>
  appended, not for the sibling.
\<close>

theorem loadSubjectTransform_skips_migration:
  "os_path_isfile bidsSubject
     ''/data/sub-01/normalization/transformations/sub-01_from-anchorNative_to-MNI152NLin2009bAsym_desc-ants.h5''
   \<and> os_path_isfile bidsSubject
     ''/data/sub-01/normalization/transformations/sub-01_from-MNI152NLin2009bAsym_to-anchorNative_desc-ants.h5''
   \<and> commands bidsSubject = []
   \<and> loadSubjectTransform ''/data/sub-01''
        ''/opt/leaddbs/ext_libs/ANTs/antsApplyTransforms.glnxa64'' bidsSubject
       = (Inr ''/data/sub-01/normalization/transformations/sub-01_from-anchorNative_to-MNI152NLin2009bAsym_desc-ants.nii.gz'',
          bidsSubject)"
proof -
  let ?fwd = "''/data/sub-01/normalization/transformations/sub-01_from-anchorNative_to-MNI152NLin2009bAsym_desc-ants.nii.gz''"
  let ?inv = "''/data/sub-01/normalization/transformations/sub-01_from-MNI152NLin2009bAsym_to-anchorNative_desc-ants.nii.gz''"
  have h1: "os_path_isfile bidsSubject
     ''/data/sub-01/normalization/transformations/sub-01_from-anchorNative_to-MNI152NLin2009bAsym_desc-ants.h5''"
    by code_simp
  have h2: "os_path_isfile bidsSubject
     ''/data/sub-01/normalization/transformations/sub-01_from-MNI152NLin2009bAsym_to-anchorNative_desc-ants.h5''"
    by code_simp
  have c0: "commands bidsSubject = []" by (simp add: bidsSubject_def)
  have fwd: "getANTSForwardWarp (LeadFileManager_init bidsSubject ''/data/sub-01'') = ?fwd"
    by code_simp
  have inv: "getANTSInverseWarp (LeadFileManager_init bidsSubject ''/data/sub-01'') = ?inv"
    by code_simp
  have rep: "str_replace ?fwd ''.nii.gz'' ''.h5'' =
     ''/data/sub-01/normalization/transformations/sub-01_from-anchorNative_to-MNI152NLin2009bAsym_desc-ants.h5''"
    by code_simp
  have norm: "getNormalizedImages bidsSubject (LeadFileManager_init bidsSubject ''/data/sub-01'')
     = [''/data/sub-01/normalization/anat/sub-01_space-MNI152NLin2009bAsym_ses-preop_T1w.nii'']"
    by code_simp
  have coreg: "getCoregImages bidsSubject (LeadFileManager_init bidsSubject ''/data/sub-01'') ''*''
     = Inr [''/data/sub-01/coregistration/anat/sub-01_ses-preop_T1w.nii'']"
    by code_simp
  have n1: "\<not> os_path_isfile bidsSubject (os_path_join ''/data/sub-01'' [?fwd @ ''.h5''])"
    by code_simp
  have n2: "\<not> os_path_isfile bidsSubject (os_path_join ''/data/sub-01'' [?inv @ ''.h5''])"
    by code_simp
  have o1: "updateOne ''/data/sub-01''
              ''/opt/leaddbs/ext_libs/ANTs/antsApplyTransforms.glnxa64'' ?fwd
              ''/data/sub-01/normalization/anat/sub-01_space-MNI152NLin2009bAsym_ses-preop_T1w.nii''
              bidsSubject = (Inr (), bidsSubject)"
    using n1 by (rule updateOne_absent)
  have o2: "updateOne ''/data/sub-01''
              ''/opt/leaddbs/ext_libs/ANTs/antsApplyTransforms.glnxa64'' ?inv
              ''/data/sub-01/coregistration/anat/sub-01_ses-preop_T1w.nii''
              bidsSubject = (Inr (), bidsSubject)"
    using n2 by (rule updateOne_absent)
  have l: "updateLoop ''/data/sub-01''
              ''/opt/leaddbs/ext_libs/ANTs/antsApplyTransforms.glnxa64''
              [(?fwd, ''/data/sub-01/normalization/anat/sub-01_space-MNI152NLin2009bAsym_ses-preop_T1w.nii''),
               (?inv, ''/data/sub-01/coregistration/anat/sub-01_ses-preop_T1w.nii'')]
              bidsSubject = (Inr (), bidsSubject)"
    by (simp only: updateLoop.simps o1 o2 prod.case sum.case)
  have u: "updateTranform ''/data/sub-01''
             ''/opt/leaddbs/ext_libs/ANTs/antsApplyTransforms.glnxa64'' bidsSubject
           = (Inr True, bidsSubject)"
    by (simp only: updateTranform_def Let_def fwd inv norm coreg list.case sum.case
          zip_Cons_Cons zip_Nil l prod.case)
  have r: "loadSubjectTransform ''/data/sub-01''
        ''/opt/leaddbs/ext_libs/ANTs/antsApplyTransforms.glnxa64'' bidsSubject
       = (Inr ?fwd, bidsSubject)"
    by (simp only: loadSubjectTransform_def Let_def fwd rep h1 if_True u prod.case sum.case)
  show ?thesis
    using h1 h2 c0 r by (simp only: simp_thms)
qed

text \<open>
  For a legacy subject with the \<open>.h5\<close> sibling the migration does not get as far as
  the loop: collecting the reference images raises.
\<close>

lemma loadSubjectTransform_legacy_raises:
  "fst (loadSubjectTransform ''/data/patient7''
          ''/opt/leaddbs/ext_libs/ANTs/antsApplyTransforms.glnxa64'' legacyComposite)
     = Inl AttributeError"
  by code_simp

end
